theory Spec2Isabelle
  imports Complex_Main "HOL-Library.Word" "HOL-Library.Log_Nat"
begin

section \<open>Values and errors\<close>

text \<open>
  The handlers of \<^verbatim>\<open>src/api/videos.ts\<close> and \<^verbatim>\<open>src/api/thumbnails.ts\<close> throw
  the error classes imported from \<^verbatim>\<open>./errors\<close>; the classifier throws plain
  \<^verbatim>\<open>Error\<close> objects, and the runtime throws \<^verbatim>\<open>TypeError\<close> (property read on
  \<^verbatim>\<open>null\<close> or \<^verbatim>\<open>undefined\<close>) and \<^verbatim>\<open>SyntaxError\<close> (\<^verbatim>\<open>JSON.parse\<close>).
  Every throw is a value \<open>Inl e\<close> of the model.
\<close>

datatype error =
    BadRequestError string
  | UnauthorizedError string
  | UserForbiddenError string
  | NotFoundError string
  | Error string
  | TypeError
  | SyntaxError

text \<open>
  What \<^verbatim>\<open>JSON.parse\<close> returns. A JSON number is a double; the model keeps its
  value, a rational, and rounds the result of every arithmetic operation to a
  double again (\<open>round_double\<close> below). The members of an object are kept in
  the order of the text; a later duplicate key wins, as in \<^verbatim>\<open>JSON.parse\<close>.
\<close>

datatype json =
    JNull
  | JBool bool
  | JNum rat
  | JStr string
  | JArr "json list"
  | JObj "(string \<times> json) list"

text \<open>
  A JavaScript value read from parsed JSON is a \<open>json option\<close>: \<open>None\<close> is
  \<^verbatim>\<open>undefined\<close>. \<open>member v k\<close> is the property \<^verbatim>\<open>v[k]\<close> of a value that is
  neither \<^verbatim>\<open>null\<close> nor \<^verbatim>\<open>undefined\<close>, for the property names the classifier
  reads (\<^verbatim>\<open>streams\<close>, \<^verbatim>\<open>length\<close>, \<^verbatim>\<open>0\<close>, \<^verbatim>\<open>width\<close>, \<^verbatim>\<open>height\<close>): an own member
  of an object, the length and the first element of an array or of a string,
  and \<^verbatim>\<open>undefined\<close> on numbers and booleans.
\<close>

fun member :: "json \<Rightarrow> string \<Rightarrow> json option" where
  "member (JObj kvs) k = map_of (rev kvs) k"
| "member (JArr xs) k =
     (if k = ''length'' then Some (JNum (of_nat (length xs)))
      else if k = ''0'' then (case xs of [] \<Rightarrow> None | x # _ \<Rightarrow> Some x)
      else None)"
| "member (JStr s) k =
     (if k = ''length'' then Some (JNum (of_nat (length s)))
      else if k = ''0'' then (case s of [] \<Rightarrow> None | c # _ \<Rightarrow> Some (JStr [c]))
      else None)"
| "member (JNum r) k = None"
| "member (JBool b) k = None"
| "member JNull k = None"

text \<open>The property read \<^verbatim>\<open>v.k\<close>: a \<^verbatim>\<open>TypeError\<close> on \<^verbatim>\<open>null\<close> and \<^verbatim>\<open>undefined\<close>.\<close>

fun read_prop :: "json option \<Rightarrow> string \<Rightarrow> error + json option" where
  "read_prop None k = Inl TypeError"
| "read_prop (Some JNull) k = Inl TypeError"
| "read_prop (Some v) k = Inr (member v k)"

text \<open>
  Truthiness, as \<^verbatim>\<open>!v\<close> tests it: \<^verbatim>\<open>undefined\<close>, \<^verbatim>\<open>null\<close>, \<^verbatim>\<open>false\<close>, \<^verbatim>\<open>0\<close>
  and the empty string are falsy, every other value is truthy.
\<close>

fun truthy :: "json option \<Rightarrow> bool" where
  "truthy None = False"
| "truthy (Some JNull) = False"
| "truthy (Some (JBool b)) = b"
| "truthy (Some (JNum r)) = (r \<noteq> 0)"
| "truthy (Some (JStr s)) = (s \<noteq> [])"
| "truthy (Some (JArr xs)) = True"
| "truthy (Some (JObj kvs)) = True"

text \<open>
  Strict equality \<^verbatim>\<open>v === n\<close> of a value with a number \<open>n\<close>; the number is
  \<open>None\<close> when it is \<^verbatim>\<open>NaN\<close> or infinite, which no JSON number equals.
\<close>

fun strict_eq_num :: "json option \<Rightarrow> rat option \<Rightarrow> bool" where
  "strict_eq_num (Some (JNum r)) (Some n) = (r = n)"
| "strict_eq_num _ _ = False"

text \<open>
  The conversion to a number that \<^verbatim>\<open>/\<close> applies to its operand. On a number it
  is the identity. On the other values (strings, booleans, arrays, objects) it
  is ECMAScript's \<^verbatim>\<open>ToNumber\<close>, taken as the parameter \<open>toNumber\<close>; \<open>None\<close> stands
  for \<^verbatim>\<open>NaN\<close> and the infinities.
\<close>

fun to_number :: "(json \<Rightarrow> rat option) \<Rightarrow> json option \<Rightarrow> rat option" where
  "to_number toNumber (Some (JNum r)) = Some r"
| "to_number toNumber (Some v) = toNumber v"
| "to_number toNumber None = None"

subsection \<open>Arithmetic on doubles\<close>

text \<open>
  The binary exponent of a positive rational: the \<open>e\<close> with
  \<open>2 ^ e \<le> q < 2 ^ (e + 1)\<close>.
\<close>

definition ilog2 :: "rat \<Rightarrow> int" where
  "ilog2 q = (if 1 \<le> q then bitlen \<lfloor>q\<rfloor> - 1 else - bitlen (\<lceil>1 / q\<rceil> - 1))"

text \<open>Rounding to the nearest integer, a tie going to the even one.\<close>

definition round_half_even :: "rat \<Rightarrow> int" where
  "round_half_even t =
     (let f = \<lfloor>t\<rfloor>; r = t - of_int f
      in if r < 1 / 2 then f else if 1 / 2 < r then f + 1 else if even f then f else f + 1)"

text \<open>
  The double (IEEE 754 binary64, round to nearest, ties to even) that an exact
  result \<open>q\<close> is rounded to: the nearest multiple of the unit in the last of
  the 53 significant bits, where the exponent is at least that of the
  subnormal numbers. \<open>None\<close> is an overflow to an infinity.
\<close>

definition round_double :: "rat \<Rightarrow> rat option" where
  "round_double q =
     (if q = 0 then Some 0
      else let e = max (ilog2 \<bar>q\<bar>) (- 1022);
               ulp = 2 powi (e - 52);
               d = of_int (round_half_even (q / ulp)) * ulp
           in if \<bar>d\<bar> < 2 ^ 1024 then Some d else None)"

text \<open>
  \<^verbatim>\<open>Math.floor(16 * (x / 9))\<close>: the quotient and the product are rounded to
  doubles, the floor of a double is exact; \<^verbatim>\<open>NaN\<close> and the infinities are
  passed through.
\<close>

definition adjusted :: "rat option \<Rightarrow> rat option" where
  "adjusted x =
     (case x of
        None \<Rightarrow> None
      | Some r \<Rightarrow>
          (case round_double (r / 9) of
             None \<Rightarrow> None
           | Some d \<Rightarrow>
               (case round_double (16 * d) of
                  None \<Rightarrow> None
                | Some p \<Rightarrow> Some (of_int \<lfloor>p\<rfloor>))))"

section \<open>The aspect-ratio classifier\<close>

text \<open>
  The outcome of the spawned \<^verbatim>\<open>ffprobe\<close> process as \<^verbatim>\<open>getVideoAspectRatio\<close>
  reads it: the exit code, the text of standard error, and the standard output
  as \<^verbatim>\<open>JSON.parse\<close> returns it (\<open>None\<close> when \<^verbatim>\<open>JSON.parse\<close> throws).
\<close>

record probe =
  exitCode :: int
  stdoutJSON :: "json option"
  stderrText :: string

definition getVideoAspectRatio :: "(json \<Rightarrow> rat option) \<Rightarrow> probe \<Rightarrow> error + string" where
  "getVideoAspectRatio toNumber proc =
     (if exitCode proc \<noteq> 0 then Inl (Error (stderrText proc))
      else case stdoutJSON proc of
        None \<Rightarrow> Inl SyntaxError
      | Some parsed \<Rightarrow>
     (case read_prop (Some parsed) ''streams'' of
        Inl e \<Rightarrow> Inl e
      | Inr streams \<Rightarrow>
     if \<not> truthy streams then Inl (Error ''Stream data not found.'')
     else
     (case read_prop streams ''length'' of
        Inl e \<Rightarrow> Inl e
      | Inr len \<Rightarrow>
     if strict_eq_num len (Some 0) then Inl (Error ''Stream data not found.'')
     else
     (case read_prop streams ''0'' of
        Inl e \<Rightarrow> Inl e
      | Inr aspectData \<Rightarrow>
     (case read_prop aspectData ''width'' of
        Inl e \<Rightarrow> Inl e
      | Inr width \<Rightarrow>
     if \<not> truthy width then Inl (Error ''Missing stream aspect ratio parameter.'')
     else
     (case read_prop aspectData ''height'' of
        Inl e \<Rightarrow> Inl e
      | Inr height \<Rightarrow>
     if \<not> truthy height then Inl (Error ''Missing stream aspect ratio parameter.'')
     else
       let adjustedWidth = adjusted (to_number toNumber width);
           adjustedHeight = adjusted (to_number toNumber height)
       in Inr (if strict_eq_num width adjustedHeight then ''landscape''
               else if strict_eq_num height adjustedWidth then ''portrait''
               else ''other'')))))))"

section \<open>Records, requests and the stores\<close>

text \<open>
  The video record of the database layer: its identifier, its owner and the two
  URL fields the handlers assign. The record is extensible: the fields that
  belong to the database layer alone are its \<open>more\<close> part, which the
  handlers never touch.
\<close>

record video =
  id_video :: string
  userID :: string
  thumbnailURL :: "string option"
  videoURL :: "string option"

text \<open>A \<^verbatim>\<open>File\<close> of the form data: \<^verbatim>\<open>file.size\<close>, \<^verbatim>\<open>file.type\<close> and its bytes.\<close>

record js_file =
  size_file :: nat
  type_file :: string
  bytes_file :: string

text \<open>An entry of a \<^verbatim>\<open>FormData\<close> is a \<^verbatim>\<open>File\<close> or a string.\<close>

datatype form_value = FormFile js_file | FormString string

text \<open>
  The request: \<^verbatim>\<open>req.params.videoId\<close> (\<open>None\<close> when the parameter is
  \<^verbatim>\<open>undefined\<close>), the headers, and what \<^verbatim>\<open>await req.formData()\<close> gives: the
  entries in order, or the error it rejects with. \<^verbatim>\<open>formData.get(name)\<close> is the
  first entry of that name, \<open>map_of form name\<close>.
\<close>

record request =
  videoId :: "string option"
  headers :: "(string \<times> string) list"
  formData :: "error + (string \<times> form_value) list"

text \<open>
  The configuration fields the handlers read themselves. \<^verbatim>\<open>cfg.db\<close> and
  \<^verbatim>\<open>cfg.s3Client\<close> are handles of stores; the stores are part of the world.
\<close>

record apiConfig =
  jwtSecret :: string
  s3Bucket :: string

text \<open>
  The world a handler runs in: the table of videos behind \<^verbatim>\<open>cfg.db\<close>, the
  local file system (path to bytes), and the object store behind
  \<^verbatim>\<open>cfg.s3Client\<close> (bucket and key to bytes and content type).
\<close>

record 'a world =
  db :: "string \<rightharpoonup> 'a video_scheme"
  disk :: "string \<rightharpoonup> string"
  s3 :: "(string \<times> string) \<rightharpoonup> (string \<times> string)"

text \<open>The response \<^verbatim>\<open>respondWithJSON(status, video)\<close> builds.\<close>

record 'a response =
  status :: nat
  body :: "'a video_scheme"

text \<open>
  What the handlers call and \<^verbatim>\<open>src/\<close> does not hold, as parameters:
  \<^item> the helpers of \<^verbatim>\<open>../auth\<close> and \<^verbatim>\<open>./assets\<close>, any functions of these types;
  \<^item> the external process: \<open>ffprobe env d path\<close> is the outcome of the probe
    run on the file system \<open>d\<close> at \<open>path\<close>;
  \<^item> \<^verbatim>\<open>ToNumber\<close> on values that are not numbers;
  \<^item> whether an operation of the runtime or of the database layer fails in
    this run: \<open>Some msg\<close> is the message of the error it rejects with.
\<close>

record env =
  getBearerToken :: "(string \<times> string) list \<Rightarrow> error + string"
  validateJWT :: "string \<Rightarrow> string \<Rightarrow> error + string"
  mediaTypeToExt :: "string \<Rightarrow> string"
  getAssetDiskPath :: "apiConfig \<Rightarrow> string \<Rightarrow> string"
  getAssetURL :: "apiConfig \<Rightarrow> string \<Rightarrow> string"
  getS3AssetURL :: "apiConfig \<Rightarrow> string \<Rightarrow> string"
  ffprobe :: "(string \<rightharpoonup> string) \<Rightarrow> string \<Rightarrow> probe"
  toNumber :: "json \<Rightarrow> rat option"
  writeError :: "string option"
  s3Error :: "string option"
  deleteError :: "string option"
  updateError :: "string option"

subsection \<open>The database layer and the runtime\<close>

text \<open>
  Modelled from the spec: \<^verbatim>\<open>getVideo\<close> of \<^verbatim>\<open>../db/videos\<close>, which is not among
  the sources. Section 6: \<^verbatim>\<open>getVideo(db, id) -> record | absent\<close>.
\<close>

definition getVideo :: "(string \<rightharpoonup> 'a video_scheme) \<Rightarrow> string \<Rightarrow> 'a video_scheme option" where
  "getVideo d i = d i"

text \<open>
  Modelled from the spec: \<^verbatim>\<open>updateVideo\<close> of \<^verbatim>\<open>../db/videos\<close>, which is not
  among the sources. Section 6: \<^verbatim>\<open>updateVideo(db, record) -> fails on persistence
  error\<close>; otherwise the record is stored under its identifier, as it was passed.
\<close>

definition updateVideo ::
  "string option \<Rightarrow> (string \<rightharpoonup> 'a video_scheme) \<Rightarrow> 'a video_scheme \<Rightarrow>
   error + (string \<rightharpoonup> 'a video_scheme)" where
  "updateVideo fault d v =
     (case fault of Some msg \<Rightarrow> Inl (Error msg) | None \<Rightarrow> Inr (d(id_video v \<mapsto> v)))"

text \<open>
  Modelled from the spec: \<^verbatim>\<open>respondWithJSON\<close> of \<^verbatim>\<open>./json\<close>, which is not among
  the sources. Section 6: success returns \<^verbatim>\<open>200\<close> with the updated video record
  as JSON.
\<close>

definition respondWithJSON :: "nat \<Rightarrow> 'a video_scheme \<Rightarrow> 'a response" where
  "respondWithJSON st v = \<lparr>status = st, body = v\<rparr>"

text \<open>\<^verbatim>\<open>await Bun.write(path, file)\<close>: the bytes are at the path afterwards.\<close>

definition Bun_write ::
  "string option \<Rightarrow> (string \<rightharpoonup> string) \<Rightarrow> string \<Rightarrow> string \<Rightarrow> error + (string \<rightharpoonup> string)" where
  "Bun_write fault d path bytes =
     (case fault of Some msg \<Rightarrow> Inl (Error msg) | None \<Rightarrow> Inr (d(path \<mapsto> bytes)))"

text \<open>\<^verbatim>\<open>await tempFile.delete()\<close>: the path holds no file afterwards.\<close>

definition Bun_delete ::
  "string option \<Rightarrow> (string \<rightharpoonup> string) \<Rightarrow> string \<Rightarrow> error + (string \<rightharpoonup> string)" where
  "Bun_delete fault d path =
     (case fault of Some msg \<Rightarrow> Inl (Error msg) | None \<Rightarrow> Inr (d(path := None)))"

text \<open>
  \<^verbatim>\<open>s3file.write(tempFile, {type})\<close>. The handlers do not await the promise:
  when the upload fails, or the local file cannot be read, the store is left as
  it was and the handler goes on all the same. The model runs the upload to
  its end at the call; how it interleaves with the deletion that follows is
  outside the model.
\<close>

definition s3_write ::
  "string option \<Rightarrow> ((string \<times> string) \<rightharpoonup> (string \<times> string)) \<Rightarrow> string \<times> string \<Rightarrow>
   string option \<Rightarrow> string \<Rightarrow> ((string \<times> string) \<rightharpoonup> (string \<times> string))" where
  "s3_write fault store key local type =
     (case fault of
        Some msg \<Rightarrow> store
      | None \<Rightarrow> (case local of None \<Rightarrow> store | Some bytes \<Rightarrow> store(key \<mapsto> (bytes, type))))"

section \<open>The handlers\<close>

text \<open>\<^verbatim>\<open>1 << 30\<close> and \<^verbatim>\<open>10 << 20\<close>: shifts of 32-bit integers, read signed.\<close>

definition MAX_UPLOAD_SIZE_video :: int where
  "MAX_UPLOAD_SIZE_video = sint (push_bit 30 (1 :: 32 word))"

definition MAX_UPLOAD_SIZE_thumbnail :: int where
  "MAX_UPLOAD_SIZE_thumbnail = sint (push_bit 20 (10 :: 32 word))"

text \<open>
  \<^verbatim>\<open>handlerUploadVideo\<close> of \<^verbatim>\<open>src/api/videos.ts\<close>, the variant that classifies the
  upload. The result is what the handler returns or throws, and the world it
  leaves behind.
\<close>

definition handlerUploadVideo ::
  "env \<Rightarrow> apiConfig \<Rightarrow> request \<Rightarrow> 'a world \<Rightarrow> (error + 'a response) \<times> 'a world" where
  "handlerUploadVideo env cfg req w =
     (case videoId req of
        None \<Rightarrow> (Inl (BadRequestError ''Invalid video ID''), w)
      | Some vid \<Rightarrow>
     if vid = [] then (Inl (BadRequestError ''Invalid video ID''), w)
     else
     (case getBearerToken env (headers req) of
        Inl e \<Rightarrow> (Inl e, w)
      | Inr token \<Rightarrow>
     (case validateJWT env token (jwtSecret cfg) of
        Inl e \<Rightarrow> (Inl e, w)
      | Inr uid \<Rightarrow>
     (case getVideo (db w) vid of
        None \<Rightarrow> (Inl (NotFoundError ''Couldn't find video''), w)
      | Some video \<Rightarrow>
     if userID video \<noteq> uid
     then (Inl (UserForbiddenError ''You do not have access to edit this video''), w)
     else
     (case formData req of
        Inl e \<Rightarrow> (Inl e, w)
      | Inr form \<Rightarrow>
     (case map_of form ''video'' of
        None \<Rightarrow> (Inl (BadRequestError ''Video file missing''), w)
      | Some (FormString s) \<Rightarrow> (Inl (BadRequestError ''Video file missing''), w)
      | Some (FormFile file) \<Rightarrow>
     if int (size_file file) > MAX_UPLOAD_SIZE_video
     then (Inl (BadRequestError ''Video file size must be < 1GB''), w)
     else
     let type = type_file file in
     if type = [] then (Inl (BadRequestError ''Missing Content-Type for Video''), w)
     else if type \<noteq> ''video/mp4''
     then (Inl (BadRequestError ''Invalid Content-Type for Video''), w)
     else
     let ext = mediaTypeToExt env type;
         filename = vid @ ext;
         assetDiskPath = getAssetDiskPath env cfg filename
     in
     (case Bun_write (writeError env) (disk w) assetDiskPath (bytes_file file) of
        Inl e \<Rightarrow> (Inl e, w)
      | Inr written \<Rightarrow>
     let w1 = w\<lparr>disk := written\<rparr> in
     (case getVideoAspectRatio (toNumber env) (ffprobe env (disk w1) assetDiskPath) of
        Inl e \<Rightarrow> (Inl e, w1)
      | Inr aspectRatio \<Rightarrow>
     let prefixedFileName = aspectRatio @ ''/'' @ filename;
         w2 = w1\<lparr>s3 := s3_write (s3Error env) (s3 w1) (s3Bucket cfg, prefixedFileName)
                          (disk w1 assetDiskPath) type\<rparr>;
         assetURL = getS3AssetURL env cfg prefixedFileName;
         video' = video\<lparr>videoURL := Some assetURL\<rparr>
     in
     (case Bun_delete (deleteError env) (disk w2) assetDiskPath of
        Inl e \<Rightarrow> (Inl e, w2)
      | Inr deleted \<Rightarrow>
     let w3 = w2\<lparr>disk := deleted\<rparr> in
     (case updateVideo (updateError env) (db w3) video' of
        Inl e \<Rightarrow> (Inl e, w3)
      | Inr updated \<Rightarrow>
     (Inr (respondWithJSON 200 video'), w3\<lparr>db := updated\<rparr>)))))))))))"

text \<open>
  The second \<^verbatim>\<open>handlerUploadVideo\<close> among the sources: the same handler without
  the classifier, storing under the file name itself.
\<close>

definition handlerUploadVideo_unprefixed ::
  "env \<Rightarrow> apiConfig \<Rightarrow> request \<Rightarrow> 'a world \<Rightarrow> (error + 'a response) \<times> 'a world" where
  "handlerUploadVideo_unprefixed env cfg req w =
     (case videoId req of
        None \<Rightarrow> (Inl (BadRequestError ''Invalid video ID''), w)
      | Some vid \<Rightarrow>
     if vid = [] then (Inl (BadRequestError ''Invalid video ID''), w)
     else
     (case getBearerToken env (headers req) of
        Inl e \<Rightarrow> (Inl e, w)
      | Inr token \<Rightarrow>
     (case validateJWT env token (jwtSecret cfg) of
        Inl e \<Rightarrow> (Inl e, w)
      | Inr uid \<Rightarrow>
     (case getVideo (db w) vid of
        None \<Rightarrow> (Inl (NotFoundError ''Couldn't find video''), w)
      | Some video \<Rightarrow>
     if userID video \<noteq> uid
     then (Inl (UserForbiddenError ''You do not have access to edit this video''), w)
     else
     (case formData req of
        Inl e \<Rightarrow> (Inl e, w)
      | Inr form \<Rightarrow>
     (case map_of form ''video'' of
        None \<Rightarrow> (Inl (BadRequestError ''Video file missing''), w)
      | Some (FormString s) \<Rightarrow> (Inl (BadRequestError ''Video file missing''), w)
      | Some (FormFile file) \<Rightarrow>
     if int (size_file file) > MAX_UPLOAD_SIZE_video
     then (Inl (BadRequestError ''Video file size must be < 1GB''), w)
     else
     let type = type_file file in
     if type = [] then (Inl (BadRequestError ''Missing Content-Type for Video''), w)
     else if type \<noteq> ''video/mp4''
     then (Inl (BadRequestError ''Invalid Content-Type for Video''), w)
     else
     let ext = mediaTypeToExt env type;
         filename = vid @ ext;
         assetDiskPath = getAssetDiskPath env cfg filename
     in
     (case Bun_write (writeError env) (disk w) assetDiskPath (bytes_file file) of
        Inl e \<Rightarrow> (Inl e, w)
      | Inr written \<Rightarrow>
     let w1 = w\<lparr>disk := written\<rparr>;
         w2 = w1\<lparr>s3 := s3_write (s3Error env) (s3 w1) (s3Bucket cfg, filename)
                          (disk w1 assetDiskPath) type\<rparr>;
         assetURL = getS3AssetURL env cfg filename;
         video' = video\<lparr>videoURL := Some assetURL\<rparr>
     in
     (case Bun_delete (deleteError env) (disk w2) assetDiskPath of
        Inl e \<Rightarrow> (Inl e, w2)
      | Inr deleted \<Rightarrow>
     let w3 = w2\<lparr>disk := deleted\<rparr> in
     (case updateVideo (updateError env) (db w3) video' of
        Inl e \<Rightarrow> (Inl e, w3)
      | Inr updated \<Rightarrow>
     (Inr (respondWithJSON 200 video'), w3\<lparr>db := updated\<rparr>))))))))))"

text \<open>
  \<^verbatim>\<open>handlerUploadThumbnail\<close> of \<^verbatim>\<open>src/api/thumbnails.ts\<close>. Its \<^verbatim>\<open>console.log\<close>
  touches none of the stores and is left out.
\<close>

definition handlerUploadThumbnail ::
  "env \<Rightarrow> apiConfig \<Rightarrow> request \<Rightarrow> 'a world \<Rightarrow> (error + 'a response) \<times> 'a world" where
  "handlerUploadThumbnail env cfg req w =
     (case videoId req of
        None \<Rightarrow> (Inl (BadRequestError ''Invalid video ID''), w)
      | Some vid \<Rightarrow>
     if vid = [] then (Inl (BadRequestError ''Invalid video ID''), w)
     else
     (case getBearerToken env (headers req) of
        Inl e \<Rightarrow> (Inl e, w)
      | Inr token \<Rightarrow>
     (case validateJWT env token (jwtSecret cfg) of
        Inl e \<Rightarrow> (Inl e, w)
      | Inr uid \<Rightarrow>
     (case getVideo (db w) vid of
        None \<Rightarrow> (Inl (NotFoundError ''Couldn't find video''), w)
      | Some video \<Rightarrow>
     if userID video \<noteq> uid
     then (Inl (UserForbiddenError ''You do not have access to edit this video''), w)
     else
     (case formData req of
        Inl e \<Rightarrow> (Inl e, w)
      | Inr form \<Rightarrow>
     (case map_of form ''thumbnail'' of
        None \<Rightarrow> (Inl (BadRequestError ''Thumbnail file missing''), w)
      | Some (FormString s) \<Rightarrow> (Inl (BadRequestError ''Thumbnail file missing''), w)
      | Some (FormFile file) \<Rightarrow>
     if int (size_file file) > MAX_UPLOAD_SIZE_thumbnail
     then (Inl (BadRequestError ''Thumbnail file size must be < 10MB''), w)
     else
     let type = type_file file in
     if type = [] then (Inl (BadRequestError ''Missing Content-Type for thumbnail''), w)
     else
     let ext = mediaTypeToExt env type;
         filename = vid @ ext;
         assetDiskPath = getAssetDiskPath env cfg filename
     in
     (case Bun_write (writeError env) (disk w) assetDiskPath (bytes_file file) of
        Inl e \<Rightarrow> (Inl e, w)
      | Inr written \<Rightarrow>
     let w1 = w\<lparr>disk := written\<rparr>;
         assetURL = getAssetURL env cfg filename;
         video' = video\<lparr>thumbnailURL := Some assetURL\<rparr>
     in
     (case updateVideo (updateError env) (db w1) video' of
        Inl e \<Rightarrow> (Inl e, w1)
      | Inr updated \<Rightarrow>
     (Inr (respondWithJSON 200 video'), w1\<lparr>db := updated\<rparr>)))))))))"

section \<open>Vocabulary of the properties\<close>

text \<open>
  The first stream entry of a parsed probe output, \<^verbatim>\<open>parsed.streams[0]\<close>:
  there is none when \<^verbatim>\<open>streams\<close> is absent or falsy, when its length is 0, or
  when the entry is absent or \<^verbatim>\<open>null\<close>.
\<close>

definition first_stream :: "json \<Rightarrow> json option" where
  "first_stream parsed =
     (case member parsed ''streams'' of
        None \<Rightarrow> None
      | Some streams \<Rightarrow>
          if \<not> truthy (Some streams) \<or> member streams ''length'' = Some (JNum 0) then None
          else (case member streams ''0'' of
                  None \<Rightarrow> None
                | Some JNull \<Rightarrow> None
                | Some s \<Rightarrow> Some s))"

text \<open>
  When the classifier fails, in the words of the specification: the process
  exits non-zero, or its output is malformed, or no stream entry is present, or
  the first stream lacks width or height (has no such member).
\<close>

definition spec_probe_fails :: "probe \<Rightarrow> bool" where
  "spec_probe_fails p =
     (exitCode p \<noteq> 0 \<or>
      (case stdoutJSON p of
         None \<Rightarrow> True
       | Some parsed \<Rightarrow>
           (case first_stream parsed of
              None \<Rightarrow> True
            | Some s \<Rightarrow> member s ''width'' = None \<or> member s ''height'' = None)))"

text \<open>
  The same with the test the code applies to the two dimensions: the member is
  absent or falsy (\<^verbatim>\<open>null\<close>, \<^verbatim>\<open>false\<close>, \<^verbatim>\<open>0\<close>, the empty string).
\<close>

definition probe_fails :: "probe \<Rightarrow> bool" where
  "probe_fails p =
     (exitCode p \<noteq> 0 \<or>
      (case stdoutJSON p of
         None \<Rightarrow> True
       | Some parsed \<Rightarrow>
           (case first_stream parsed of
              None \<Rightarrow> True
            | Some s \<Rightarrow> \<not> truthy (member s ''width'') \<or> \<not> truthy (member s ''height''))))"

section \<open>Sample inputs\<close>

text \<open>
  What the probe prints for one video stream of the given size, and a probe
  that exits with status 1.
\<close>

definition probe_of_size :: "rat \<Rightarrow> rat \<Rightarrow> probe" where
  "probe_of_size w h =
     \<lparr>exitCode = 0,
      stdoutJSON = Some (JObj [(''programs'', JArr []),
                               (''streams'', JArr [JObj [(''width'', JNum w), (''height'', JNum h)]])]),
      stderrText = []\<rparr>"

definition probe_failed :: "string \<Rightarrow> probe" where
  "probe_failed msg = \<lparr>exitCode = 1, stdoutJSON = Some (JObj []), stderrText = msg\<rparr>"

text \<open>
  One instance of the parameters: a token reader and a validator that knows
  the tokens of two users, the helpers of \<^verbatim>\<open>./assets\<close> as string
  concatenations, a probe that recognises one file content, and no failure of
  the runtime.
\<close>

definition sample_env :: env where
  "sample_env =
     \<lparr>getBearerToken = (\<lambda>hs. case map_of hs ''Authorization'' of
          None \<Rightarrow> Inl (BadRequestError ''Malformed authorization header'')
        | Some v \<Rightarrow> if take 7 v = ''Bearer '' then Inr (drop 7 v)
                    else Inl (BadRequestError ''Malformed authorization header'')),
      validateJWT = (\<lambda>token secret.
          if token = ''alice-jwt'' then Inr ''alice''
          else if token = ''bob-jwt'' then Inr ''bob''
          else Inl (UnauthorizedError ''Invalid token'')),
      mediaTypeToExt = (\<lambda>t. if t = ''video/mp4'' then ''.mp4''
                             else if t = ''image/png'' then ''.png'' else ''.bin''),
      getAssetDiskPath = (\<lambda>cfg name. ''/assets/'' @ name),
      getAssetURL = (\<lambda>cfg name. ''http://localhost/assets/'' @ name),
      getS3AssetURL = (\<lambda>cfg key. ''https://'' @ s3Bucket cfg @ ''.s3/'' @ key),
      ffprobe = (\<lambda>d path. case d path of
          None \<Rightarrow> probe_failed ''No such file or directory''
        | Some bytes \<Rightarrow> if bytes = ''mp4 1280x720'' then probe_of_size 1280 720
                        else probe_failed ''Invalid data found''),
      toNumber = (\<lambda>v. None),
      writeError = None,
      s3Error = None,
      deleteError = None,
      updateError = None\<rparr>"

definition sample_cfg :: apiConfig where
  "sample_cfg = \<lparr>jwtSecret = ''secret'', s3Bucket = ''tubely''\<rparr>"

definition sample_video :: video where
  "sample_video = \<lparr>id_video = ''v1'', userID = ''alice'', thumbnailURL = None, videoURL = None\<rparr>"

definition sample_world :: "unit world" where
  "sample_world = \<lparr>db = [''v1'' \<mapsto> sample_video], disk = Map.empty, s3 = Map.empty\<rparr>"

definition sample_file :: "string \<Rightarrow> string \<Rightarrow> js_file" where
  "sample_file t bytes = \<lparr>size_file = length bytes, type_file = t, bytes_file = bytes\<rparr>"

definition sample_request :: "string \<Rightarrow> string \<Rightarrow> js_file \<Rightarrow> request" where
  "sample_request token field f =
     \<lparr>videoId = Some ''v1'',
      headers = [(''Authorization'', ''Bearer '' @ token)],
      formData = Inr [(field, FormFile f)]\<rparr>"

text \<open>The owner uploads a video the probe recognises as 1280 by 720.\<close>

definition sample_upload :: request where
  "sample_upload = sample_request ''alice-jwt'' ''video'' (sample_file ''video/mp4'' ''mp4 1280x720'')"

text \<open>The owner uploads a thumbnail.\<close>

definition sample_thumbnail :: request where
  "sample_thumbnail = sample_request ''alice-jwt'' ''thumbnail'' (sample_file ''image/png'' ''png'')"

text \<open>An upload whose declared media type is \<^verbatim>\<open>image/png\<close>, with the given token.\<close>

definition sample_wrong_type :: "string \<Rightarrow> request" where
  "sample_wrong_type token = sample_request token ''video'' (sample_file ''image/png'' ''png'')"

section \<open>Auxiliary facts\<close>

lemmas sample_defs = sample_env_def sample_cfg_def sample_video_def sample_world_def
  sample_file_def sample_request_def sample_upload_def sample_thumbnail_def
  sample_wrong_type_def probe_of_size_def probe_failed_def

lemma floor_rat_numeral:
  "\<lfloor>(numeral a :: rat) / numeral b\<rfloor> = numeral a div numeral b"
  by (metis floor_divide_of_int_eq of_int_numeral)

subsection \<open>Doubles and exact arithmetic\<close>

text \<open>The exponent \<open>ilog2\<close> computes is the binary exponent.\<close>

lemma bitlen_pos: "0 < x \<Longrightarrow> 1 \<le> bitlen x"
  by (auto simp: bitlen_alt_def)

lemma ilog2_bounds:
  assumes "0 < q"
  shows "2 powi (ilog2 q) \<le> q" and "q < 2 powi (ilog2 q + 1)"
proof -
  have "2 powi (ilog2 q) \<le> q \<and> q < 2 powi (ilog2 q + 1)"
  proof (cases "1 \<le> q")
    case True
    define m where "m = \<lfloor>q\<rfloor>"
    have m1: "1 \<le> m" using True by (simp add: m_def le_floor_iff)
    then have mp: "0 < m" by simp
    have b1: "1 \<le> bitlen m" using bitlen_pos [OF mp] .
    from bitlen_bounds [OF mp]
    have lo: "2 ^ nat (bitlen m - 1) \<le> m" and hi: "m < 2 ^ nat (bitlen m)" by simp_all
    have e: "ilog2 q = bitlen m - 1" using True by (simp add: ilog2_def m_def)
    have p1: "(2::rat) powi (bitlen m - 1) = 2 ^ nat (bitlen m - 1)"
      using b1 by (simp add: power_int_nonneg_exp)
    have e1: "ilog2 q + 1 = bitlen m" by (simp add: e)
    have p2: "(2::rat) powi (bitlen m) = 2 ^ nat (bitlen m)"
      using b1 by (simp add: power_int_nonneg_exp)
    have "(of_int (2 ^ nat (bitlen m - 1)) :: rat) \<le> of_int m"
      using lo by (simp only: of_int_le_iff)
    also have "\<dots> \<le> q" by (simp add: m_def)
    finally have "2 ^ nat (bitlen m - 1) \<le> q" by simp
    then have A: "2 powi (ilog2 q) \<le> q" unfolding e p1 .
    have "m + 1 \<le> 2 ^ nat (bitlen m)" using hi by simp
    then have "(of_int (m + 1) :: rat) \<le> of_int (2 ^ nat (bitlen m))"
      by (simp only: of_int_le_iff)
    moreover have "q < of_int (m + 1)" unfolding m_def by linarith
    ultimately have "q < 2 ^ nat (bitlen m)" by simp
    then have B: "q < 2 powi (ilog2 q + 1)" unfolding e1 p2 .
    from A B show ?thesis ..
  next
    case False
    then have q1: "q < 1" by simp
    define c where "c = \<lceil>1 / q\<rceil>"
    have iq: "1 < 1 / q" using assms q1 by (simp add: field_simps)
    have c2: "2 \<le> c"
    proof -
      have "1 < c" unfolding c_def using iq by (simp add: less_ceiling_iff)
      then show ?thesis by simp
    qed
    then have cp: "0 < c - 1" by simp
    define L where "L = bitlen (c - 1)"
    have L1: "1 \<le> L" unfolding L_def using bitlen_pos [OF cp] .
    from bitlen_bounds [OF cp]
    have lo: "2 ^ nat (L - 1) \<le> c - 1" and hi: "c - 1 < 2 ^ nat L" by (simp_all add: L_def)
    have e: "ilog2 q = - L" using False by (simp add: ilog2_def c_def L_def)
    have p1: "(2::rat) powi (- L) = 1 / 2 ^ nat L"
      using L1 by (simp add: power_int_minus_divide power_int_nonneg_exp)
    have e1: "ilog2 q + 1 = - (L - 1)" by (simp add: e)
    have p2: "(2::rat) powi (- (L - 1)) = 1 / 2 ^ nat (L - 1)"
      using L1 by (simp only: power_int_minus_divide) (simp add: power_int_nonneg_exp)
    have "c \<le> 2 ^ nat L" using hi by simp
    then have "(of_int c :: rat) \<le> of_int (2 ^ nat L)" by (simp only: of_int_le_iff)
    then have c': "(of_int c :: rat) \<le> 2 ^ nat L" by simp
    have "1 / q \<le> of_int c" by (simp add: c_def)
    from this c' have "1 / q \<le> 2 ^ nat L" by (rule order_trans)
    then have "1 / 2 ^ nat L \<le> q"
      using assms by (simp add: field_simps)
    then have A: "2 powi (ilog2 q) \<le> q" unfolding e p1 .
    have "(of_int (2 ^ nat (L - 1)) :: rat) \<le> of_int (c - 1)"
      using lo by (simp only: of_int_le_iff)
    then have l': "(2 ^ nat (L - 1) :: rat) \<le> of_int c - 1" by simp
    have "of_int c - 1 < 1 / q"
      unfolding c_def by linarith
    with l' have "2 ^ nat (L - 1) < 1 / q" by (rule order_le_less_trans)
    then have "q < 1 / 2 ^ nat (L - 1)"
      using assms by (simp add: field_simps)
    then have B: "q < 2 powi (ilog2 q + 1)" unfolding e1 p2 .
    from A B show ?thesis ..
  qed
  then show "2 powi (ilog2 q) \<le> q" and "q < 2 powi (ilog2 q + 1)" by simp_all
qed

lemma ilog2_eqI:
  assumes "0 < q" and "2 powi e \<le> q" and "q < 2 powi (e + 1)"
  shows "ilog2 q = e"
proof -
  from ilog2_bounds [OF assms(1)] assms(2,3)
  have "(2::rat) powi (ilog2 q) < 2 powi (e + 1)" and "(2::rat) powi e < 2 powi (ilog2 q + 1)"
    by simp_all
  then have "ilog2 q < e + 1" and "e < ilog2 q + 1"
    by (metis linorder_not_less one_less_numeral_iff power_int_increasing semiring_norm(76) less_eq_rat_def)+
  then show ?thesis by simp
qed

lemma round_half_even_near: "\<bar>of_int (round_half_even t) - t\<bar> \<le> 1 / 2"
proof -
  have "of_int \<lfloor>t\<rfloor> \<le> t" and "t < of_int \<lfloor>t\<rfloor> + 1" by linarith+
  then show ?thesis
    unfolding round_half_even_def Let_def
    by (simp add: abs_if) linarith
qed

lemma round_half_even_of_int [simp]: "round_half_even (of_int n) = n"
  by (simp add: round_half_even_def)

text \<open>
  In the range of the normal numbers the rounded value is within the relative
  error \<open>2 ^ -53\<close> of the exact one, and a value that has at most 53
  significant bits is rounded to itself.
\<close>

lemma power_int_2_less_imp: "(2::rat) powi a < 2 powi b \<Longrightarrow> a < b"
  by (metis linorder_not_less one_le_numeral power_int_increasing)

lemma round_double_normal:
  assumes q0: "q \<noteq> 0" and lo: "- 1022 \<le> ilog2 \<bar>q\<bar>" and hi: "\<bar>q\<bar> < 2 ^ 1023"
  defines "e \<equiv> ilog2 \<bar>q\<bar>"
  defines "n \<equiv> round_half_even (q / 2 powi (e - 52))"
  shows "round_double q = Some (of_int n * 2 powi (e - 52))"
    and "\<bar>of_int n * 2 powi (e - 52) - q\<bar> \<le> \<bar>q\<bar> / 2 ^ 53"
    and "\<bar>n\<bar> \<le> 2 ^ 53"
proof -
  define ulp :: rat where "ulp = 2 powi (e - 52)"
  have ulp0: "0 < ulp" by (simp add: ulp_def)
  have qp: "0 < \<bar>q\<bar>" using q0 by simp
  from ilog2_bounds [OF qp]
  have b1: "2 powi e \<le> \<bar>q\<bar>" and b2: "\<bar>q\<bar> < 2 powi (e + 1)" by (simp_all add: e_def)
  have pe: "(2::rat) powi e = ulp * 2 ^ 52"
  proof -
    have "(2::rat) powi e = 2 powi ((e - 52) + 52)"
      by (rule arg_cong [where f = "\<lambda>k. 2 powi k"]) arith
    also have "\<dots> = 2 powi (e - 52) * 2 powi 52"
      by (rule power_int_add) simp
    finally show ?thesis by (simp add: ulp_def)
  qed
  have pe1: "(2::rat) powi (e + 1) = ulp * 2 ^ 53"
  proof -
    have "(2::rat) powi (e + 1) = 2 powi ((e - 52) + 53)"
      by (rule arg_cong [where f = "\<lambda>k. 2 powi k"]) arith
    also have "\<dots> = 2 powi (e - 52) * 2 powi 53"
      by (rule power_int_add) simp
    finally show ?thesis by (simp add: ulp_def)
  qed
  have near: "\<bar>of_int n - q / ulp\<bar> \<le> 1 / 2"
    unfolding n_def ulp_def by (rule round_half_even_near)
  have "\<bar>of_int n * ulp - q\<bar> = \<bar>of_int n - q / ulp\<bar> * ulp"
  proof -
    have "of_int n * ulp - q = (of_int n - q / ulp) * ulp"
      using ulp0 by (simp add: field_simps)
    then show ?thesis using ulp0 by (simp add: abs_mult)
  qed
  also have "\<dots> \<le> (1 / 2) * ulp"
    using near ulp0 by (intro mult_right_mono) simp_all
  finally have err: "\<bar>of_int n * ulp - q\<bar> \<le> ulp / 2" by simp
  have ulpq: "ulp / 2 \<le> \<bar>q\<bar> / 2 ^ 53"
    using b1 unfolding pe by (simp add: field_simps)
  from err ulpq show A: "\<bar>of_int n * 2 powi (e - 52) - q\<bar> \<le> \<bar>q\<bar> / 2 ^ 53"
    by (simp add: ulp_def)
  have t: "\<bar>q / ulp\<bar> < 2 ^ 53"
    using b2 ulp0 unfolding pe1 by (simp add: abs_divide field_simps)
  have "\<bar>(of_int n :: rat)\<bar> < 2 ^ 53 + 1"
    using near t by linarith
  then have "(of_int \<bar>n\<bar> :: rat) < of_int (2 ^ 53 + 1)" by simp
  then have "\<bar>n\<bar> < 2 ^ 53 + 1" by (simp only: of_int_less_iff)
  then show B: "\<bar>n\<bar> \<le> 2 ^ 53" by simp
  have "\<bar>of_int n * ulp\<bar> \<le> \<bar>q\<bar> + \<bar>q\<bar> / 2 ^ 53"
    using A unfolding ulp_def by linarith
  also have "\<dots> < 2 ^ 1024" using hi by simp
  finally have fin: "\<bar>of_int n * ulp\<bar> < 2 ^ 1024" .
  have m: "max (ilog2 \<bar>q\<bar>) (- 1022) = e" using lo by (simp add: e_def)
  show "round_double q = Some (of_int n * 2 powi (e - 52))"
    using q0 fin by (simp add: round_double_def m Let_def n_def ulp_def)
qed

lemma round_double_representable_strict:
  assumes m: "\<bar>m\<bar> < 2 ^ 53" and k: "- 1074 \<le> k"
    and fin: "\<bar>of_int m * 2 powi k :: rat\<bar> < 2 ^ 1024"
  shows "round_double (of_int m * 2 powi k) = Some (of_int m * 2 powi k)"
proof (cases "m = 0")
  case True
  then show ?thesis by (simp add: round_double_def)
next
  case False
  define p :: rat where "p = of_int m * 2 powi k"
  have p0: "p \<noteq> 0" using False by (simp add: p_def)
  then have pp: "0 < \<bar>p\<bar>" by simp
  define e where "e = ilog2 \<bar>p\<bar>"
  define E where "E = max e (- 1022) - 52"
  have "2 powi e \<le> \<bar>p\<bar>" using ilog2_bounds(1) [OF pp] by (simp add: e_def)
  also have "\<bar>p\<bar> = of_int \<bar>m\<bar> * 2 powi k"
    by (simp add: p_def abs_mult)
  also have "\<dots> < 2 ^ 53 * 2 powi k"
  proof -
    have "(of_int \<bar>m\<bar> :: rat) < of_int (2 ^ 53)" using m by (simp only: of_int_less_iff)
    then have "(of_int \<bar>m\<bar> :: rat) < 2 ^ 53" by simp
    then show ?thesis by (intro mult_strict_right_mono) simp_all
  qed
  also have "\<dots> = 2 powi (53 + k)"
  proof -
    have "(2::rat) powi (53 + k) = 2 powi 53 * 2 powi k"
      by (rule power_int_add) simp
    then show ?thesis by simp
  qed
  finally have "e < 53 + k" by (rule power_int_2_less_imp)
  with k have Ek: "E \<le> k" by (simp add: E_def)
  define j where "j = nat (k - E)"
  have kj: "k = E + int j" using Ek by (simp add: j_def)
  have pk: "(2::rat) powi k = 2 powi E * 2 ^ j"
  proof -
    have "(2::rat) powi (E + int j) = 2 powi E * 2 powi (int j)"
      by (rule power_int_add) simp
    then show ?thesis by (simp add: kj)
  qed
  have quo: "p / 2 powi E = of_int (m * 2 ^ j)"
    by (simp add: p_def pk)
  have "round_half_even (p / 2 powi E) = m * 2 ^ j"
    unfolding quo by (rule round_half_even_of_int)
  then have d: "of_int (round_half_even (p / 2 powi E)) * 2 powi E = p"
    by (simp add: p_def pk)
  show ?thesis
    using p0 fin d
    unfolding p_def [symmetric]
    by (simp add: round_double_def Let_def E_def e_def)
qed

lemma round_double_representable:
  assumes m: "\<bar>m\<bar> \<le> 2 ^ 53" and k: "- 1074 \<le> k"
    and fin: "\<bar>of_int m * 2 powi k :: rat\<bar> < 2 ^ 1024"
  shows "round_double (of_int m * 2 powi k) = Some (of_int m * 2 powi k)"
proof (cases "\<bar>m\<bar> < 2 ^ 53")
  case True
  then show ?thesis using k fin by (rule round_double_representable_strict)
next
  case False
  with m have "\<bar>m\<bar> = 2 ^ 53" by simp
  then obtain h where h: "m = 2 * h" and hb: "\<bar>h\<bar> < 2 ^ 53"
    by (cases "0 \<le> m") (auto intro: that [of "2 ^ 52"] that [of "- (2 ^ 52)"])
  have eq: "(of_int m * 2 powi k :: rat) = of_int h * 2 powi (k + 1)"
  proof -
    have "(2::rat) powi (k + 1) = 2 powi k * 2 powi 1"
      by (rule power_int_add) simp
    then show ?thesis by (simp add: h)
  qed
  have "round_double (of_int h * 2 powi (k + 1)) = Some (of_int h * 2 powi (k + 1))"
  proof (rule round_double_representable_strict [OF hb])
    show "- 1074 \<le> k + 1" using k by simp
    show "\<bar>of_int h * 2 powi (k + 1) :: rat\<bar> < 2 ^ 1024"
      using fin unfolding eq .
  qed
  then show ?thesis unfolding eq .
qed

text \<open>
  On the non-zero integers of magnitude below \<open>2 ^ 49\<close>, which cover the pixel
  sizes a probe prints, the doubles of \<open>adjusted\<close> give the floor of the exact
  quotient: the product with 16 is exact, and the quotient by 9 is rounded by
  less than the distance of \<open>16 * x / 9\<close> to the next integer.
\<close>

lemma floor_double_quotient:
  fixes x :: int and d :: rat
  assumes nz: "x \<noteq> 0" and small: "\<bar>x\<bar> < 2 ^ 49"
    and near: "\<bar>d - of_int x / 9\<bar> \<le> \<bar>of_int x / 9\<bar> / 2 ^ 53"
    and exact: "9 dvd x \<Longrightarrow> d = of_int x / 9"
  shows "\<lfloor>16 * d\<rfloor> = (16 * x) div 9"
proof -
  define k where "k = (16 * x) div 9"
  define r where "r = (16 * x) mod 9"
  have split: "16 * x = 9 * k + r" and r0: "0 \<le> r" and r9: "r < 9"
    by (simp_all add: k_def r_def)
  have q: "16 * (of_int x / 9 :: rat) = of_int k + of_int r / 9"
  proof -
    have "(of_int (16 * x) :: rat) = of_int (9 * k + r)"
      using split by simp
    then show ?thesis by (simp add: field_simps)
  qed
  have "\<lfloor>16 * d\<rfloor> = k"
  proof (cases "r = 0")
    case True
    then have "9 dvd 16 * x"
      by (simp add: r_def dvd_eq_mod_eq_0)
    then have "9 dvd x"
      by presburger
    from exact [OF this] have "16 * d = 16 * (of_int x / 9)"
      by (rule arg_cong)
    also have "\<dots> = of_int k"
      unfolding q using True by simp
    finally show ?thesis by simp
  next
    case False
    with r0 have r1: "1 \<le> r" by simp
    have bound: "\<bar>of_int x / 9 :: rat\<bar> / 2 ^ 53 < 1 / 144"
    proof -
      have "(of_int \<bar>x\<bar> :: rat) < of_int (2 ^ 49)"
        using small by (simp only: of_int_less_iff)
      then have "\<bar>of_int x :: rat\<bar> < 2 ^ 49" by simp
      then show ?thesis by (simp add: field_simps)
    qed
    from near bound have err: "\<bar>16 * d - 16 * (of_int x / 9)\<bar> < 1 / 9"
      by linarith
    have lo: "of_int k + 1 / 9 \<le> 16 * (of_int x / 9 :: rat)"
      unfolding q using r1 by simp
    have hi: "16 * (of_int x / 9 :: rat) \<le> of_int k + 8 / 9"
    proof -
      from r9 have "r \<le> 8" by simp
      then have "(of_int r :: rat) \<le> of_int 8" by (simp only: of_int_le_iff)
      then show ?thesis unfolding q by simp
    qed
    show ?thesis
    proof (rule floor_unique)
      show "of_int k \<le> 16 * d" using err lo by linarith
      show "16 * d < of_int k + 1" using err hi by linarith
    qed
  qed
  then show ?thesis by (simp add: k_def)
qed

lemma adjusted_int:
  assumes nz: "x \<noteq> 0" and small: "\<bar>x\<bar> < 2 ^ 49"
  shows "adjusted (Some (of_int x)) = Some (of_int ((16 * x) div 9))"
proof -
  define q :: rat where "q = of_int x / 9"
  have q0: "q \<noteq> 0" using nz by (simp add: q_def)
  then have qp: "0 < \<bar>q\<bar>" by simp
  have xa: "\<bar>of_int x :: rat\<bar> < 2 ^ 49"
  proof -
    have "(of_int \<bar>x\<bar> :: rat) < of_int (2 ^ 49)"
      using small by (simp only: of_int_less_iff)
    then show ?thesis by simp
  qed
  have x1: "1 \<le> \<bar>of_int x :: rat\<bar>"
  proof -
    from nz have "1 \<le> \<bar>x\<bar>" by simp
    then have "(of_int 1 :: rat) \<le> of_int \<bar>x\<bar>" by (simp only: of_int_le_iff)
    then show ?thesis by simp
  qed
  have qlo: "2 powi (- 4) < \<bar>q\<bar>"
    using x1 by (simp add: q_def power_int_minus_divide)
  have qhi: "\<bar>q\<bar> < 2 ^ 49"
    using xa by (simp add: q_def)
  define e where "e = ilog2 \<bar>q\<bar>"
  have "(2::rat) powi (- 4) < 2 powi (e + 1)"
    using qlo ilog2_bounds(2) [OF qp] by (simp add: e_def)
  then have "- 4 < e + 1" by (rule power_int_2_less_imp)
  then have elo: "- 4 \<le> e" by simp
  then have norm: "- 1022 \<le> ilog2 \<bar>q\<bar>" by (simp add: e_def)
  have qfin: "\<bar>q\<bar> < 2 ^ 1023" using qhi by simp
  define n where "n = round_half_even (q / 2 powi (e - 52))"
  define d :: rat where "d = of_int n * 2 powi (e - 52)"
  from round_double_normal [OF q0 norm qfin]
  have rd: "round_double q = Some d"
    and near: "\<bar>d - q\<bar> \<le> \<bar>q\<bar> / 2 ^ 53"
    and nb: "\<bar>n\<bar> \<le> 2 ^ 53"
    by (simp_all add: d_def n_def e_def)
  have exact: "d = q" if "9 dvd x"
  proof -
    from that obtain m where m: "x = 9 * m" ..
    have qm: "q = of_int m * 2 powi 0" by (simp add: q_def m)
    have mb: "\<bar>m\<bar> \<le> 2 ^ 53" using small m by simp
    have "round_double (of_int m * 2 powi 0) = Some (of_int m * 2 powi 0)"
    proof (rule round_double_representable [OF mb])
      show "- 1074 \<le> (0::int)" by simp
      show "\<bar>of_int m * 2 powi 0 :: rat\<bar> < 2 ^ 1024"
        using qfin unfolding qm by simp
    qed
    with rd show ?thesis by (simp add: qm)
  qed
  have dfin: "\<bar>d\<bar> < 2 ^ 50"
  proof -
    have "\<bar>d\<bar> \<le> \<bar>q\<bar> + \<bar>q\<bar> / 2 ^ 53" using near by linarith
    also have "\<dots> < 2 ^ 50" using qhi by simp
    finally show ?thesis .
  qed
  have p16: "16 * d = of_int n * 2 powi (e - 48)"
  proof -
    have "(2::rat) powi (e - 48) = 2 powi ((e - 52) + 4)"
      by (rule arg_cong [where f = "\<lambda>k. 2 powi k"]) arith
    also have "\<dots> = 2 powi (e - 52) * 2 powi 4"
      by (rule power_int_add) simp
    finally show ?thesis by (simp add: d_def)
  qed
  have rp: "round_double (16 * d) = Some (16 * d)"
    unfolding p16
  proof (rule round_double_representable [OF nb])
    show "- 1074 \<le> e - 48" using elo by simp
    show "\<bar>of_int n * 2 powi (e - 48) :: rat\<bar> < 2 ^ 1024"
      unfolding p16 [symmetric] using dfin by simp
  qed
  have fl: "\<lfloor>16 * d\<rfloor> = (16 * x) div 9"
  proof (rule floor_double_quotient [OF nz small])
    show "\<bar>d - of_int x / 9\<bar> \<le> \<bar>of_int x / 9\<bar> / 2 ^ 53"
      using near by (simp add: q_def)
    show "d = of_int x / 9" if "9 dvd x"
      using exact [OF that] by (simp add: q_def)
  qed
  show ?thesis
    using rd rp fl by (simp add: adjusted_def q_def [symmetric])
qed

lemma adjusted_numeral:
  "numeral n < (2::int) ^ 49 \<Longrightarrow>
   adjusted (Some (numeral n)) = Some (of_int ((16 * numeral n) div 9))"
  using adjusted_int [of "numeral n"] by simp

text \<open>Two sizes above that bound, where the rounding of the quotient shows.\<close>

lemma adjusted_large_height: "adjusted (Some 633318697598981) = Some 1125899906842633"
  by code_simp

lemma adjusted_large_width: "adjusted (Some 1125899906842632) = Some 2001599834386901"
  by code_simp

lemma MAX_UPLOAD_SIZE_video_value: "MAX_UPLOAD_SIZE_video = 2 ^ 30"
  by (simp add: MAX_UPLOAD_SIZE_video_def)

lemma MAX_UPLOAD_SIZE_thumbnail_value: "MAX_UPLOAD_SIZE_thumbnail = 10 * 2 ^ 20"
  by (simp add: MAX_UPLOAD_SIZE_thumbnail_def)

lemmas eval_defs = handlerUploadVideo_def handlerUploadVideo_unprefixed_def
  handlerUploadThumbnail_def getVideo_def updateVideo_def respondWithJSON_def
  Bun_write_def Bun_delete_def s3_write_def getVideoAspectRatio_def adjusted_numeral Let_def
  MAX_UPLOAD_SIZE_video_value MAX_UPLOAD_SIZE_thumbnail_value

lemma member_read_prop:
  "member v k = Some x \<Longrightarrow> read_prop (Some v) k = Inr (Some x)"
  by (cases v) simp_all

lemma read_prop_truthy: "truthy v \<Longrightarrow> read_prop v k = Inr (member (the v) k)"
  by (cases v rule: truthy.cases) simp_all

lemma read_prop_Some: "s \<noteq> JNull \<Longrightarrow> read_prop (Some s) k = Inr (member s k)"
  by (cases s) simp_all

lemma strict_eq_num_zero: "strict_eq_num v (Some 0) = (v = Some (JNum 0))"
proof (cases v)
  case None
  then show ?thesis by simp
next
  case (Some j)
  then show ?thesis by (cases j) simp_all
qed

lemma classifier_labels:
  "getVideoAspectRatio tn p = Inr l \<Longrightarrow> l \<in> {''landscape'', ''portrait'', ''other''}"
  unfolding getVideoAspectRatio_def
  by (simp add: Let_def split: if_splits option.splits sum.splits)

lemma classifier_fails_probe_fails:
  "(\<exists>e. getVideoAspectRatio tn p = Inl e) = probe_fails p"
proof (cases "exitCode p \<noteq> 0 \<or> stdoutJSON p = None")
  case True
  then show ?thesis
    by (auto simp: getVideoAspectRatio_def probe_fails_def)
next
  case False
  then obtain parsed where ok: "exitCode p = 0" "stdoutJSON p = Some parsed"
    by auto
  show ?thesis
  proof (cases "first_stream parsed")
    case None
    then show ?thesis
      using ok
      by (cases parsed)
         (auto simp: getVideoAspectRatio_def probe_fails_def first_stream_def
           strict_eq_num_zero read_prop_truthy Let_def
           split: option.splits if_splits json.splits sum.splits)
  next
    case (Some s)
    then show ?thesis
      using ok
      by (cases parsed)
         (auto simp: getVideoAspectRatio_def probe_fails_def first_stream_def
           strict_eq_num_zero read_prop_truthy read_prop_Some Let_def
           split: option.splits if_splits json.splits sum.splits)
  qed
qed

section \<open>The classifier: rule, examples, failures\<close>

text \<open>
  C1, as stated, fails at two ends. A first stream of width 1125899906842632
  and height 633318697598981 has \<open>w = floor (16 * h / 9)\<close>, but the double
  \<^verbatim>\<open>16 * (h / 9)\<close> is 1125899906842633 and the classifier returns \<^verbatim>\<open>other\<close>.
  A first stream of width 0 and height 0 has \<open>w = floor (16 * h / 9)\<close> too, and
  the classifier fails.
\<close>

theorem classifier_rule_counterexample:
  "getVideoAspectRatio (\<lambda>v. None) (probe_of_size 1125899906842632 633318697598981)
     = Inr ''other''
   \<and> (1125899906842632 :: rat) = of_int \<lfloor>16 * 633318697598981 / (9 :: rat)\<rfloor>
   \<and> getVideoAspectRatio (\<lambda>v. None) (probe_of_size 0 0)
     = Inl (Error ''Missing stream aspect ratio parameter.'')
   \<and> (0 :: rat) = of_int \<lfloor>16 * 0 / (9 :: rat)\<rfloor>"
  by (simp add: getVideoAspectRatio_def probe_of_size_def Let_def floor_rat_numeral
      adjusted_large_height adjusted_large_width)

text \<open>
  C1, amended. For a probe that exited with status 0 and whose first stream
  has integers \<open>w\<close> and \<open>h\<close> as width and height, both non-zero and of
  magnitude below \<open>2 ^ 49\<close>, the classifier returns \<^verbatim>\<open>landscape\<close> if
  \<open>w = floor (16 * h / 9)\<close>, else \<^verbatim>\<open>portrait\<close> if \<open>h = floor (16 * w / 9)\<close>,
  else \<^verbatim>\<open>other\<close>; and on no input does it return another label.
\<close>

theorem classifier_rule:
  assumes "exitCode proc = 0"
    and "stdoutJSON proc = Some parsed"
    and "member parsed ''streams'' = Some (JArr (s # rest))"
    and "member s ''width'' = Some (JNum (of_int w))"
    and "member s ''height'' = Some (JNum (of_int h))"
    and "w \<noteq> 0" and "\<bar>w\<bar> < 2 ^ 49"
    and "h \<noteq> 0" and "\<bar>h\<bar> < 2 ^ 49"
  shows "getVideoAspectRatio tn proc =
           Inr (if (of_int w :: rat) = of_int \<lfloor>16 * of_int h / (9 :: rat)\<rfloor> then ''landscape''
                else if (of_int h :: rat) = of_int \<lfloor>16 * of_int w / (9 :: rat)\<rfloor> then ''portrait''
                else ''other'')
         \<and> (\<forall>p l. getVideoAspectRatio tn p = Inr l \<longrightarrow>
                l \<in> {''landscape'', ''portrait'', ''other''})"
proof
  have fw: "\<lfloor>16 * of_int w / (9 :: rat)\<rfloor> = (16 * w) div 9"
    using floor_divide_of_int_eq [of "16 * w" 9, where ?'a = rat] by simp
  have fh: "\<lfloor>16 * of_int h / (9 :: rat)\<rfloor> = (16 * h) div 9"
    using floor_divide_of_int_eq [of "16 * h" 9, where ?'a = rat] by simp
  have aw: "adjusted (Some (of_int w)) = Some (of_int ((16 * w) div 9))"
    using assms(6,7) by (rule adjusted_int)
  have ah: "adjusted (Some (of_int h)) = Some (of_int ((16 * h) div 9))"
    using assms(8,9) by (rule adjusted_int)
  show "getVideoAspectRatio tn proc =
           Inr (if (of_int w :: rat) = of_int \<lfloor>16 * of_int h / (9 :: rat)\<rfloor> then ''landscape''
                else if (of_int h :: rat) = of_int \<lfloor>16 * of_int w / (9 :: rat)\<rfloor> then ''portrait''
                else ''other'')"
    unfolding fw fh
    using assms(1-6,8)
    by (simp add: getVideoAspectRatio_def member_read_prop aw ah Let_def)
  show "\<forall>p l. getVideoAspectRatio tn p = Inr l \<longrightarrow>
                l \<in> {''landscape'', ''portrait'', ''other''}"
    using classifier_labels by blast
qed

theorem classifier_rule_witness:
  "exitCode (probe_of_size 1280 720) = 0
   \<and> stdoutJSON (probe_of_size 1280 720) =
       Some (JObj [(''programs'', JArr []),
                   (''streams'', JArr [JObj [(''width'', JNum 1280), (''height'', JNum 720)]])])
   \<and> member (JObj [(''programs'', JArr []),
                   (''streams'', JArr [JObj [(''width'', JNum 1280), (''height'', JNum 720)]])])
        ''streams'' = Some (JArr [JObj [(''width'', JNum 1280), (''height'', JNum 720)]])
   \<and> member (JObj [(''width'', JNum 1280), (''height'', JNum 720)]) ''width''
        = Some (JNum (of_int 1280))
   \<and> member (JObj [(''width'', JNum 1280), (''height'', JNum 720)]) ''height''
        = Some (JNum (of_int 720))
   \<and> (1280 :: int) \<noteq> 0 \<and> \<bar>1280 :: int\<bar> < 2 ^ 49
   \<and> (720 :: int) \<noteq> 0 \<and> \<bar>720 :: int\<bar> < 2 ^ 49
   \<and> getVideoAspectRatio (\<lambda>v. None) (probe_of_size 1280 720) = Inr ''landscape''"
proof -
  let ?s = "JObj [(''width'', JNum 1280), (''height'', JNum 720)]"
  let ?j = "JObj [(''programs'', JArr []), (''streams'', JArr [?s])]"
  have h1: "exitCode (probe_of_size 1280 720) = 0"
    and h2: "stdoutJSON (probe_of_size 1280 720) = Some ?j"
    and h3: "member ?j ''streams'' = Some (JArr (?s # []))"
    and h4: "member ?s ''width'' = Some (JNum (of_int 1280))"
    and h5: "member ?s ''height'' = Some (JNum (of_int 720))"
    and h6: "(1280 :: int) \<noteq> 0" and h7: "\<bar>1280 :: int\<bar> < 2 ^ 49"
    and h8: "(720 :: int) \<noteq> 0" and h9: "\<bar>720 :: int\<bar> < 2 ^ 49"
    by (simp_all add: probe_of_size_def)
  have "getVideoAspectRatio (\<lambda>v. None) (probe_of_size 1280 720) = Inr ''landscape''"
    using classifier_rule [OF h1 h2 h3 h4 h5 h6 h7 h8 h9, of "\<lambda>v. None"]
    by (simp add: floor_rat_numeral)
  with h1 h2 h3 h4 h5 show ?thesis by simp
qed

text \<open>
  C2. The classifier maps a stream of 1920 by 1080 to \<^verbatim>\<open>landscape\<close>, one of
  1080 by 1920 to \<^verbatim>\<open>portrait\<close>, and one of 640 by 480 to \<^verbatim>\<open>other\<close>.
\<close>

theorem classifier_examples:
  "getVideoAspectRatio tn (probe_of_size 1920 1080) = Inr ''landscape''
   \<and> getVideoAspectRatio tn (probe_of_size 1080 1920) = Inr ''portrait''
   \<and> getVideoAspectRatio tn (probe_of_size 640 480) = Inr ''other''"
  by (simp add: getVideoAspectRatio_def probe_of_size_def adjusted_numeral Let_def)

text \<open>
  C8, as stated, fails: a first stream whose width is the number 0 has a
  width and a height, the process exited with status 0 and its output is well
  formed, and the classifier fails all the same.
\<close>

theorem classifier_zero_width_counterexample:
  "getVideoAspectRatio (\<lambda>v. None) (probe_of_size 0 1080) =
     Inl (Error ''Missing stream aspect ratio parameter.'')
   \<and> \<not> spec_probe_fails (probe_of_size 0 1080)"
  by (simp add: getVideoAspectRatio_def probe_of_size_def spec_probe_fails_def first_stream_def)

text \<open>
  C8, amended. The classifier fails if and only if the probing process exits
  non-zero (and then it fails with the captured standard-error text), or its
  output is malformed, or no stream entry is present, or the width or the
  height of the first stream is absent or falsy (\<^verbatim>\<open>null\<close>, \<^verbatim>\<open>false\<close>, \<^verbatim>\<open>0\<close>,
  the empty string); in every other case it returns one of the three labels.
\<close>

theorem classifier_fails_iff:
  "((\<exists>e. getVideoAspectRatio tn p = Inl e) = probe_fails p)
   \<and> (exitCode p \<noteq> 0 \<longrightarrow> getVideoAspectRatio tn p = Inl (Error (stderrText p)))
   \<and> (\<not> probe_fails p \<longrightarrow>
        (\<exists>l \<in> {''landscape'', ''portrait'', ''other''}. getVideoAspectRatio tn p = Inr l))"
proof (intro conjI impI)
  show "(\<exists>e. getVideoAspectRatio tn p = Inl e) = probe_fails p"
    by (rule classifier_fails_probe_fails)
  show "getVideoAspectRatio tn p = Inl (Error (stderrText p))" if "exitCode p \<noteq> 0"
    using that by (simp add: getVideoAspectRatio_def)
  show "\<exists>l \<in> {''landscape'', ''portrait'', ''other''}. getVideoAspectRatio tn p = Inr l"
    if "\<not> probe_fails p"
  proof -
    from that have "\<not> (\<exists>e. getVideoAspectRatio tn p = Inl e)"
      by (simp add: classifier_fails_probe_fails)
    then obtain l where l: "getVideoAspectRatio tn p = Inr l"
      by (cases "getVideoAspectRatio tn p") auto
    with classifier_labels [OF l] show ?thesis by blast
  qed
qed

theorem classifier_fails_iff_witness:
  "exitCode (probe_failed ''moov atom not found'') \<noteq> 0
   \<and> probe_fails (probe_failed ''moov atom not found'')
   \<and> getVideoAspectRatio (\<lambda>v. None) (probe_failed ''moov atom not found'') =
       Inl (Error ''moov atom not found'')
   \<and> \<not> probe_fails (probe_of_size 1280 720)
   \<and> (\<exists>l \<in> {''landscape'', ''portrait'', ''other''}.
         getVideoAspectRatio (\<lambda>v. None) (probe_of_size 1280 720) = Inr l)"
proof -
  have a: "exitCode (probe_failed ''moov atom not found'') \<noteq> 0"
    by (simp add: probe_failed_def)
  have b: "\<not> probe_fails (probe_of_size 1280 720)"
    by (simp add: probe_fails_def probe_of_size_def first_stream_def)
  have c: "probe_fails (probe_failed ''moov atom not found'')"
    by (simp add: probe_fails_def probe_failed_def)
  have d: "stderrText (probe_failed ''moov atom not found'') = ''moov atom not found''"
    by (simp add: probe_failed_def)
  show ?thesis
    using classifier_fails_iff [of "\<lambda>v. None" "probe_failed ''moov atom not found''"]
      classifier_fails_iff [of "\<lambda>v. None" "probe_of_size 1280 720"] a b c d
    by simp
qed

section \<open>The handlers: successful runs\<close>

lemma handlerUploadVideo_success:
  assumes "handlerUploadVideo env cfg req w = (Inr resp, w')"
  shows "\<exists>vid token video form file aspectRatio.
     videoId req = Some vid \<and> vid \<noteq> [] \<and>
     getBearerToken env (headers req) = Inr token \<and>
     validateJWT env token (jwtSecret cfg) = Inr (userID video) \<and>
     getVideo (db w) vid = Some video \<and>
     formData req = Inr form \<and>
     map_of form ''video'' = Some (FormFile file) \<and>
     int (size_file file) \<le> MAX_UPLOAD_SIZE_video \<and>
     type_file file = ''video/mp4'' \<and>
     writeError env = None \<and> deleteError env = None \<and> updateError env = None \<and>
     getVideoAspectRatio (toNumber env)
       (ffprobe env
          ((disk w)(getAssetDiskPath env cfg (vid @ mediaTypeToExt env ''video/mp4'')
             \<mapsto> bytes_file file))
          (getAssetDiskPath env cfg (vid @ mediaTypeToExt env ''video/mp4''))) = Inr aspectRatio \<and>
     resp = respondWithJSON 200
       (video\<lparr>videoURL := Some (getS3AssetURL env cfg
          (aspectRatio @ ''/'' @ vid @ mediaTypeToExt env ''video/mp4''))\<rparr>) \<and>
     w' = \<lparr>db = (db w)(id_video video \<mapsto> video\<lparr>videoURL := Some (getS3AssetURL env cfg
                 (aspectRatio @ ''/'' @ vid @ mediaTypeToExt env ''video/mp4''))\<rparr>),
           disk = (disk w)(getAssetDiskPath env cfg (vid @ mediaTypeToExt env ''video/mp4'') := None),
           s3 = s3_write (s3Error env) (s3 w)
                  (s3Bucket cfg, aspectRatio @ ''/'' @ vid @ mediaTypeToExt env ''video/mp4'')
                  (Some (bytes_file file)) ''video/mp4''\<rparr>"
  using assms unfolding handlerUploadVideo_def
  by (auto simp: Let_def Bun_write_def Bun_delete_def updateVideo_def
      split: option.splits sum.splits if_splits form_value.splits)

lemma handlerUploadVideo_unprefixed_success:
  assumes "handlerUploadVideo_unprefixed env cfg req w = (Inr resp, w')"
  shows "\<exists>vid token video form file.
     videoId req = Some vid \<and> vid \<noteq> [] \<and>
     getBearerToken env (headers req) = Inr token \<and>
     validateJWT env token (jwtSecret cfg) = Inr (userID video) \<and>
     getVideo (db w) vid = Some video \<and>
     formData req = Inr form \<and>
     map_of form ''video'' = Some (FormFile file) \<and>
     int (size_file file) \<le> MAX_UPLOAD_SIZE_video \<and>
     type_file file = ''video/mp4'' \<and>
     writeError env = None \<and> deleteError env = None \<and> updateError env = None \<and>
     resp = respondWithJSON 200
       (video\<lparr>videoURL := Some (getS3AssetURL env cfg
          (vid @ mediaTypeToExt env ''video/mp4''))\<rparr>) \<and>
     w' = \<lparr>db = (db w)(id_video video \<mapsto> video\<lparr>videoURL := Some (getS3AssetURL env cfg
                 (vid @ mediaTypeToExt env ''video/mp4''))\<rparr>),
           disk = (disk w)(getAssetDiskPath env cfg (vid @ mediaTypeToExt env ''video/mp4'') := None),
           s3 = s3_write (s3Error env) (s3 w)
                  (s3Bucket cfg, vid @ mediaTypeToExt env ''video/mp4'')
                  (Some (bytes_file file)) ''video/mp4''\<rparr>"
  using assms unfolding handlerUploadVideo_unprefixed_def
  by (auto simp: Let_def Bun_write_def Bun_delete_def updateVideo_def
      split: option.splits sum.splits if_splits form_value.splits)

lemma handlerUploadThumbnail_success:
  assumes "handlerUploadThumbnail env cfg req w = (Inr resp, w')"
  shows "\<exists>vid token video form file.
     videoId req = Some vid \<and> vid \<noteq> [] \<and>
     getBearerToken env (headers req) = Inr token \<and>
     validateJWT env token (jwtSecret cfg) = Inr (userID video) \<and>
     getVideo (db w) vid = Some video \<and>
     formData req = Inr form \<and>
     map_of form ''thumbnail'' = Some (FormFile file) \<and>
     int (size_file file) \<le> MAX_UPLOAD_SIZE_thumbnail \<and>
     type_file file \<noteq> [] \<and>
     writeError env = None \<and> updateError env = None \<and>
     resp = respondWithJSON 200
       (video\<lparr>thumbnailURL := Some (getAssetURL env cfg
          (vid @ mediaTypeToExt env (type_file file)))\<rparr>) \<and>
     w' = \<lparr>db = (db w)(id_video video \<mapsto> video\<lparr>thumbnailURL := Some (getAssetURL env cfg
                 (vid @ mediaTypeToExt env (type_file file)))\<rparr>),
           disk = (disk w)(getAssetDiskPath env cfg (vid @ mediaTypeToExt env (type_file file))
                    \<mapsto> bytes_file file),
           s3 = s3 w\<rparr>"
  using assms unfolding handlerUploadThumbnail_def
  by (auto simp: Let_def Bun_write_def updateVideo_def
      split: option.splits sum.splits if_splits form_value.splits)

text \<open>The validated video upload, up to the classification.\<close>

lemma handlerUploadVideo_accepted:
  assumes "videoId req = Some vid" and "vid \<noteq> []"
    and "getBearerToken env (headers req) = Inr token"
    and "validateJWT env token (jwtSecret cfg) = Inr (userID video)"
    and "getVideo (db w) vid = Some video"
    and "formData req = Inr form"
    and "map_of form ''video'' = Some (FormFile file)"
    and "int (size_file file) \<le> MAX_UPLOAD_SIZE_video"
    and "type_file file = ''video/mp4''"
    and "writeError env = None"
    and "path = getAssetDiskPath env cfg (vid @ mediaTypeToExt env ''video/mp4'')"
  shows "handlerUploadVideo env cfg req w =
     (case getVideoAspectRatio (toNumber env) (ffprobe env ((disk w)(path \<mapsto> bytes_file file)) path) of
        Inl e \<Rightarrow> (Inl e, w\<lparr>disk := (disk w)(path \<mapsto> bytes_file file)\<rparr>)
      | Inr aspectRatio \<Rightarrow>
          (case Bun_delete (deleteError env) ((disk w)(path \<mapsto> bytes_file file)) path of
             Inl e \<Rightarrow> (Inl e, w\<lparr>disk := (disk w)(path \<mapsto> bytes_file file),
                    s3 := s3_write (s3Error env) (s3 w)
                      (s3Bucket cfg, aspectRatio @ ''/'' @ vid @ mediaTypeToExt env ''video/mp4'')
                      (Some (bytes_file file)) ''video/mp4''\<rparr>)
           | Inr deleted \<Rightarrow>
               (case updateVideo (updateError env) (db w)
                  (video\<lparr>videoURL := Some (getS3AssetURL env cfg
                     (aspectRatio @ ''/'' @ vid @ mediaTypeToExt env ''video/mp4''))\<rparr>) of
                  Inl e \<Rightarrow> (Inl e, w\<lparr>disk := deleted,
                    s3 := s3_write (s3Error env) (s3 w)
                      (s3Bucket cfg, aspectRatio @ ''/'' @ vid @ mediaTypeToExt env ''video/mp4'')
                      (Some (bytes_file file)) ''video/mp4''\<rparr>)
                | Inr updated \<Rightarrow>
                    (Inr (respondWithJSON 200 (video\<lparr>videoURL := Some (getS3AssetURL env cfg
                       (aspectRatio @ ''/'' @ vid @ mediaTypeToExt env ''video/mp4''))\<rparr>)),
                     w\<lparr>disk := deleted,
                       s3 := s3_write (s3Error env) (s3 w)
                         (s3Bucket cfg, aspectRatio @ ''/'' @ vid @ mediaTypeToExt env ''video/mp4'')
                         (Some (bytes_file file)) ''video/mp4'',
                       db := updated\<rparr>))))"
  using assms
  by (simp add: handlerUploadVideo_def Bun_write_def Let_def split: sum.splits)

section \<open>The handlers: rejected requests\<close>





text \<open>
  C6. When the authenticated user is not the owner of the video record of the
  request, each handler (the thumbnail handler and both variants of the video
  handler) fails with \<^verbatim>\<open>UserForbiddenError\<close> and leaves the database, the
  disk and the object store as they were.
\<close>

theorem forbidden_no_write:
  assumes "videoId req = Some vid" and "vid \<noteq> []"
    and "getBearerToken env (headers req) = Inr token"
    and "validateJWT env token (jwtSecret cfg) = Inr uid"
    and "getVideo (db w) vid = Some video"
    and "userID video \<noteq> uid"
  shows "handlerUploadThumbnail env cfg req w =
           (Inl (UserForbiddenError ''You do not have access to edit this video''), w)
       \<and> handlerUploadVideo env cfg req w =
           (Inl (UserForbiddenError ''You do not have access to edit this video''), w)
       \<and> handlerUploadVideo_unprefixed env cfg req w =
           (Inl (UserForbiddenError ''You do not have access to edit this video''), w)"
  using assms
  by (simp add: handlerUploadThumbnail_def handlerUploadVideo_def
      handlerUploadVideo_unprefixed_def)

theorem forbidden_no_write_witness:
  "videoId (sample_request ''bob-jwt'' ''video'' (sample_file ''video/mp4'' ''mp4 1280x720''))
     = Some ''v1''
   \<and> ''v1'' \<noteq> []
   \<and> getBearerToken sample_env
        (headers (sample_request ''bob-jwt'' ''video'' (sample_file ''video/mp4'' ''mp4 1280x720'')))
        = Inr ''bob-jwt''
   \<and> validateJWT sample_env ''bob-jwt'' (jwtSecret sample_cfg) = Inr ''bob''
   \<and> getVideo (db sample_world) ''v1'' = Some sample_video
   \<and> userID sample_video \<noteq> ''bob''
   \<and> handlerUploadThumbnail sample_env sample_cfg
        (sample_request ''bob-jwt'' ''video'' (sample_file ''video/mp4'' ''mp4 1280x720''))
        sample_world
      = (Inl (UserForbiddenError ''You do not have access to edit this video''), sample_world)
   \<and> handlerUploadVideo sample_env sample_cfg
        (sample_request ''bob-jwt'' ''video'' (sample_file ''video/mp4'' ''mp4 1280x720''))
        sample_world
      = (Inl (UserForbiddenError ''You do not have access to edit this video''), sample_world)
   \<and> handlerUploadVideo_unprefixed sample_env sample_cfg
        (sample_request ''bob-jwt'' ''video'' (sample_file ''video/mp4'' ''mp4 1280x720''))
        sample_world
      = (Inl (UserForbiddenError ''You do not have access to edit this video''), sample_world)"
proof -
  let ?req = "sample_request ''bob-jwt'' ''video'' (sample_file ''video/mp4'' ''mp4 1280x720'')"
  have h1: "videoId ?req = Some ''v1''"
    and h2: "''v1'' \<noteq> []"
    and h3: "getBearerToken sample_env (headers ?req) = Inr ''bob-jwt''"
    and h4: "validateJWT sample_env ''bob-jwt'' (jwtSecret sample_cfg) = Inr ''bob''"
    and h5: "getVideo (db sample_world) ''v1'' = Some sample_video"
    and h6: "userID sample_video \<noteq> ''bob''"
    by (simp_all add: sample_defs getVideo_def)
  from forbidden_no_write [OF h1 h2 h3 h4 h5 h6] h1 h2 h3 h4 h5 h6
  show ?thesis by blast
qed

text \<open>
  C7. On a request that reaches the size check of the thumbnail handler, the
  handler fails with the \<^verbatim>\<open>BadRequestError\<close> of that check if and only if the
  size of the file exceeds 10 MiB, \<open>10 * 2 ^ 20\<close> bytes; a file of exactly
  10 MiB passes the check.
\<close>

theorem thumbnail_size_check:
  assumes "videoId req = Some vid" and "vid \<noteq> []"
    and "getBearerToken env (headers req) = Inr token"
    and "validateJWT env token (jwtSecret cfg) = Inr (userID video)"
    and "getVideo (db w) vid = Some video"
    and "formData req = Inr form"
    and "map_of form ''thumbnail'' = Some (FormFile file)"
  shows "(fst (handlerUploadThumbnail env cfg req w) =
            Inl (BadRequestError ''Thumbnail file size must be < 10MB''))
         = (size_file file > 10 * 2 ^ 20)"
  using assms
  by (auto simp: handlerUploadThumbnail_def MAX_UPLOAD_SIZE_thumbnail_value Let_def
      Bun_write_def updateVideo_def split: option.splits)

theorem thumbnail_size_check_witness:
  "videoId sample_thumbnail = Some ''v1''
   \<and> ''v1'' \<noteq> []
   \<and> getBearerToken sample_env (headers sample_thumbnail) = Inr ''alice-jwt''
   \<and> validateJWT sample_env ''alice-jwt'' (jwtSecret sample_cfg) = Inr (userID sample_video)
   \<and> getVideo (db sample_world) ''v1'' = Some sample_video
   \<and> formData sample_thumbnail = Inr [(''thumbnail'', FormFile (sample_file ''image/png'' ''png''))]
   \<and> map_of [(''thumbnail'', FormFile (sample_file ''image/png'' ''png''))] ''thumbnail''
        = Some (FormFile (sample_file ''image/png'' ''png''))
   \<and> \<not> size_file (sample_file ''image/png'' ''png'') > 10 * 2 ^ 20
   \<and> fst (handlerUploadThumbnail sample_env sample_cfg sample_thumbnail sample_world)
        \<noteq> Inl (BadRequestError ''Thumbnail file size must be < 10MB'')"
proof -
  let ?f = "sample_file ''image/png'' ''png''"
  have h1: "videoId sample_thumbnail = Some ''v1''"
    and h2: "''v1'' \<noteq> []"
    and h3: "getBearerToken sample_env (headers sample_thumbnail) = Inr ''alice-jwt''"
    and h4: "validateJWT sample_env ''alice-jwt'' (jwtSecret sample_cfg) = Inr (userID sample_video)"
    and h5: "getVideo (db sample_world) ''v1'' = Some sample_video"
    and h6: "formData sample_thumbnail = Inr [(''thumbnail'', FormFile ?f)]"
    and h7: "map_of [(''thumbnail'', FormFile ?f)] ''thumbnail'' = Some (FormFile ?f)"
    and h8: "\<not> size_file ?f > 10 * 2 ^ 20"
    by (simp_all add: sample_defs getVideo_def)
  from thumbnail_size_check [OF h1 h2 h3 h4 h5 h6 h7] h1 h2 h3 h4 h5 h6 h7 h8
  show ?thesis by blast
qed

section \<open>The handlers: the temporary file and the storage key\<close>

text \<open>
  C4, as stated, fails: when the classification fails, the handler exits
  with the error of the classifier and the bytes it wrote are still at the
  temporary path.
\<close>

theorem temp_file_left_counterexample:
  "fst (handlerUploadVideo sample_env sample_cfg
          (sample_request ''alice-jwt'' ''video'' (sample_file ''video/mp4'' ''garbage''))
          sample_world)
     = Inl (Error ''Invalid data found'')
   \<and> disk (snd (handlerUploadVideo sample_env sample_cfg
          (sample_request ''alice-jwt'' ''video'' (sample_file ''video/mp4'' ''garbage''))
          sample_world)) ''/assets/v1.mp4''
     = Some ''garbage''"
  by (simp add: sample_defs eval_defs)

text \<open>
  C4, amended. In the video upload handler, once the uploaded bytes have been
  written to the local temporary path and the classifier has returned a label,
  the temporary file is deleted before the database update, provided the
  deletion itself does not fail: it is gone when the handler exits, whether
  the database update then succeeds or fails and whether or not the upload to
  object storage fails. In particular, after every successful upload the
  temporary file no longer exists on disk.
\<close>

theorem temp_file_deleted:
  assumes "videoId req = Some vid"
    and "path = getAssetDiskPath env cfg (vid @ mediaTypeToExt env ''video/mp4'')"
  shows "(vid \<noteq> [] \<and>
          getBearerToken env (headers req) = Inr token \<and>
          validateJWT env token (jwtSecret cfg) = Inr (userID video) \<and>
          getVideo (db w) vid = Some video \<and>
          formData req = Inr form \<and>
          map_of form ''video'' = Some (FormFile file) \<and>
          int (size_file file) \<le> MAX_UPLOAD_SIZE_video \<and>
          type_file file = ''video/mp4'' \<and>
          writeError env = None \<and>
          getVideoAspectRatio (toNumber env)
            (ffprobe env ((disk w)(path \<mapsto> bytes_file file)) path) = Inr label \<and>
          deleteError env = None
          \<longrightarrow> disk (snd (handlerUploadVideo env cfg req w)) path = None)
       \<and> (handlerUploadVideo env cfg req w = (Inr resp, w') \<longrightarrow> disk w' path = None)"
proof (intro conjI impI)
  assume a: "vid \<noteq> [] \<and>
          getBearerToken env (headers req) = Inr token \<and>
          validateJWT env token (jwtSecret cfg) = Inr (userID video) \<and>
          getVideo (db w) vid = Some video \<and>
          formData req = Inr form \<and>
          map_of form ''video'' = Some (FormFile file) \<and>
          int (size_file file) \<le> MAX_UPLOAD_SIZE_video \<and>
          type_file file = ''video/mp4'' \<and>
          writeError env = None \<and>
          getVideoAspectRatio (toNumber env)
            (ffprobe env ((disk w)(path \<mapsto> bytes_file file)) path) = Inr label \<and>
          deleteError env = None"
  then have h: "vid \<noteq> []" "getBearerToken env (headers req) = Inr token"
      "validateJWT env token (jwtSecret cfg) = Inr (userID video)"
      "getVideo (db w) vid = Some video" "formData req = Inr form"
      "map_of form ''video'' = Some (FormFile file)"
      "int (size_file file) \<le> MAX_UPLOAD_SIZE_video" "type_file file = ''video/mp4''"
      "writeError env = None"
    and l: "getVideoAspectRatio (toNumber env)
            (ffprobe env ((disk w)(path \<mapsto> bytes_file file)) path) = Inr label"
    and d: "deleteError env = None"
    by simp_all
  show "disk (snd (handlerUploadVideo env cfg req w)) path = None"
    unfolding handlerUploadVideo_accepted [OF assms(1) h assms(2)]
    by (simp add: l d Bun_delete_def updateVideo_def split: option.splits)
next
  assume "handlerUploadVideo env cfg req w = (Inr resp, w')"
  then show "disk w' path = None"
    using handlerUploadVideo_success [of env cfg req w resp w'] assms by auto
qed

theorem temp_file_deleted_witness:
  "videoId sample_upload = Some ''v1''
   \<and> ''/assets/v1.mp4'' = getAssetDiskPath sample_env sample_cfg
        (''v1'' @ mediaTypeToExt sample_env ''video/mp4'')
   \<and> ''v1'' \<noteq> []
   \<and> getBearerToken sample_env (headers sample_upload) = Inr ''alice-jwt''
   \<and> validateJWT sample_env ''alice-jwt'' (jwtSecret sample_cfg) = Inr (userID sample_video)
   \<and> getVideo (db sample_world) ''v1'' = Some sample_video
   \<and> formData sample_upload
        = Inr [(''video'', FormFile (sample_file ''video/mp4'' ''mp4 1280x720''))]
   \<and> map_of [(''video'', FormFile (sample_file ''video/mp4'' ''mp4 1280x720''))] ''video''
        = Some (FormFile (sample_file ''video/mp4'' ''mp4 1280x720''))
   \<and> int (size_file (sample_file ''video/mp4'' ''mp4 1280x720'')) \<le> MAX_UPLOAD_SIZE_video
   \<and> type_file (sample_file ''video/mp4'' ''mp4 1280x720'') = ''video/mp4''
   \<and> writeError (sample_env\<lparr>updateError := Some ''database is locked''\<rparr>) = None
   \<and> getVideoAspectRatio (toNumber sample_env)
        (ffprobe sample_env
           ((disk sample_world)(''/assets/v1.mp4''
              \<mapsto> bytes_file (sample_file ''video/mp4'' ''mp4 1280x720'')))
           ''/assets/v1.mp4'') = Inr ''landscape''
   \<and> deleteError (sample_env\<lparr>updateError := Some ''database is locked''\<rparr>) = None
   \<and> fst (handlerUploadVideo (sample_env\<lparr>updateError := Some ''database is locked''\<rparr>)
        sample_cfg sample_upload sample_world) = Inl (Error ''database is locked'')
   \<and> disk (snd (handlerUploadVideo (sample_env\<lparr>updateError := Some ''database is locked''\<rparr>)
        sample_cfg sample_upload sample_world)) ''/assets/v1.mp4'' = None
   \<and> (\<exists>resp w'. handlerUploadVideo sample_env sample_cfg sample_upload sample_world = (Inr resp, w')
        \<and> disk w' ''/assets/v1.mp4'' = None)"
proof -
  let ?f = "sample_file ''video/mp4'' ''mp4 1280x720''"
  let ?env = "sample_env\<lparr>updateError := Some ''database is locked''\<rparr>"
  have n1: "videoId sample_upload = Some ''v1''"
    and n2: "''/assets/v1.mp4'' = getAssetDiskPath sample_env sample_cfg
        (''v1'' @ mediaTypeToExt sample_env ''video/mp4'')"
    and n2': "''/assets/v1.mp4'' = getAssetDiskPath ?env sample_cfg
        (''v1'' @ mediaTypeToExt ?env ''video/mp4'')"
    by (simp_all add: sample_defs)
  have h: "''v1'' \<noteq> []"
      "getBearerToken sample_env (headers sample_upload) = Inr ''alice-jwt''"
      "validateJWT sample_env ''alice-jwt'' (jwtSecret sample_cfg) = Inr (userID sample_video)"
      "getVideo (db sample_world) ''v1'' = Some sample_video"
      "formData sample_upload = Inr [(''video'', FormFile ?f)]"
      "map_of [(''video'', FormFile ?f)] ''video'' = Some (FormFile ?f)"
      "int (size_file ?f) \<le> MAX_UPLOAD_SIZE_video"
      "type_file ?f = ''video/mp4''"
      "writeError ?env = None"
      "getVideoAspectRatio (toNumber sample_env)
        (ffprobe sample_env ((disk sample_world)(''/assets/v1.mp4'' \<mapsto> bytes_file ?f))
           ''/assets/v1.mp4'') = Inr ''landscape''"
      "deleteError ?env = None"
    by (simp_all add: sample_defs eval_defs)
  have e: "fst (handlerUploadVideo ?env sample_cfg sample_upload sample_world)
      = Inl (Error ''database is locked'')"
    by (simp add: sample_defs eval_defs)
  have s: "\<exists>resp w'. handlerUploadVideo sample_env sample_cfg sample_upload sample_world
      = (Inr resp, w')"
    by (simp add: sample_defs eval_defs)
  have "disk (snd (handlerUploadVideo ?env sample_cfg sample_upload sample_world))
      ''/assets/v1.mp4'' = None"
    using temp_file_deleted [of sample_upload "''v1''" "''/assets/v1.mp4''" ?env sample_cfg
        "''alice-jwt''" sample_video sample_world "[(''video'', FormFile ?f)]" ?f
        "''landscape''", OF n1 n2'] h
    by simp
  moreover have "\<exists>resp w'. handlerUploadVideo sample_env sample_cfg sample_upload sample_world
      = (Inr resp, w') \<and> disk w' ''/assets/v1.mp4'' = None"
    using s temp_file_deleted [of sample_upload "''v1''" "''/assets/v1.mp4''" sample_env
        sample_cfg, OF n1 n2]
    by blast
  ultimately show ?thesis
    using n1 n2 h e by simp
qed

text \<open>
  C5. For every successful video upload, with \<^verbatim>\<open>mediaTypeToExt\<close> mapping
  \<^verbatim>\<open>video/mp4\<close> to \<^verbatim>\<open>.mp4\<close>, the object-storage key is the label the
  classifier returned for the written file, followed by \<^verbatim>\<open>/\<close> and
  \<^verbatim>\<open>{videoId}.mp4\<close>: no other key of the store changes and, when the upload
  does not fail, the object is under that key with the declared type. The
  video URL of the response and of the persisted record is \<^verbatim>\<open>getS3AssetURL\<close>
  of the configuration and that same key.
\<close>

theorem storage_key_prefixed:
  assumes "handlerUploadVideo env cfg req w = (Inr resp, w')"
    and "mediaTypeToExt env ''video/mp4'' = ''.mp4''"
    and "videoId req = Some vid"
  shows "\<exists>label \<in> {''landscape'', ''portrait'', ''other''}.
           (\<exists>bytes. getVideoAspectRatio (toNumber env)
              (ffprobe env ((disk w)(getAssetDiskPath env cfg (vid @ ''.mp4'') \<mapsto> bytes))
                 (getAssetDiskPath env cfg (vid @ ''.mp4''))) = Inr label
             \<and> (s3Error env = None \<longrightarrow>
                  s3 w' (s3Bucket cfg, label @ ''/'' @ vid @ ''.mp4'') = Some (bytes, ''video/mp4'')))
         \<and> (\<forall>k. k \<noteq> (s3Bucket cfg, label @ ''/'' @ vid @ ''.mp4'') \<longrightarrow> s3 w' k = s3 w k)
         \<and> videoURL (body resp) = Some (getS3AssetURL env cfg (label @ ''/'' @ vid @ ''.mp4''))
         \<and> (\<exists>r. db w' (id_video (body resp)) = Some r
                \<and> videoURL r = Some (getS3AssetURL env cfg (label @ ''/'' @ vid @ ''.mp4'')))"
proof -
  from handlerUploadVideo_success [OF assms(1)] show ?thesis
  proof (elim exE conjE)
    fix vid0 token video form upload aspectRatio
    assume v: "videoId req = Some vid0"
      and l0: "getVideoAspectRatio (toNumber env)
         (ffprobe env
            ((disk w)(getAssetDiskPath env cfg (vid0 @ mediaTypeToExt env ''video/mp4'')
               \<mapsto> bytes_file upload))
            (getAssetDiskPath env cfg (vid0 @ mediaTypeToExt env ''video/mp4''))) = Inr aspectRatio"
      and r0: "resp = respondWithJSON 200
         (video\<lparr>videoURL := Some (getS3AssetURL env cfg
            (aspectRatio @ ''/'' @ vid0 @ mediaTypeToExt env ''video/mp4''))\<rparr>)"
      and w0: "w' = \<lparr>db = (db w)(id_video video \<mapsto> video\<lparr>videoURL := Some (getS3AssetURL env cfg
                   (aspectRatio @ ''/'' @ vid0 @ mediaTypeToExt env ''video/mp4''))\<rparr>),
             disk = (disk w)(getAssetDiskPath env cfg (vid0 @ mediaTypeToExt env ''video/mp4'') := None),
             s3 = s3_write (s3Error env) (s3 w)
                    (s3Bucket cfg, aspectRatio @ ''/'' @ vid0 @ mediaTypeToExt env ''video/mp4'')
                    (Some (bytes_file upload)) ''video/mp4''\<rparr>"
    from v assms(3) have vid0: "vid0 = vid" by simp
    note l = l0 [unfolded vid0 assms(2)]
    note r = r0 [unfolded vid0 assms(2)]
    note w' = w0 [unfolded vid0 assms(2)]
    have m: "aspectRatio \<in> {''landscape'', ''portrait'', ''other''}"
      using classifier_labels [OF l] .
    have a: "s3Error env = None \<longrightarrow>
        s3 w' (s3Bucket cfg, aspectRatio @ ''/'' @ vid @ ''.mp4'')
          = Some (bytes_file upload, ''video/mp4'')"
      by (simp add: w' s3_write_def)
    have b: "\<forall>k. k \<noteq> (s3Bucket cfg, aspectRatio @ ''/'' @ vid @ ''.mp4'') \<longrightarrow> s3 w' k = s3 w k"
      by (simp add: w' s3_write_def split: option.splits)
    have c: "videoURL (body resp)
        = Some (getS3AssetURL env cfg (aspectRatio @ ''/'' @ vid @ ''.mp4''))"
      by (simp add: r respondWithJSON_def)
    have d: "\<exists>r. db w' (id_video (body resp)) = Some r
        \<and> videoURL r = Some (getS3AssetURL env cfg (aspectRatio @ ''/'' @ vid @ ''.mp4''))"
      by (simp add: r w' respondWithJSON_def)
    have ab: "\<exists>bytes. getVideoAspectRatio (toNumber env)
              (ffprobe env ((disk w)(getAssetDiskPath env cfg (vid @ ''.mp4'') \<mapsto> bytes))
                 (getAssetDiskPath env cfg (vid @ ''.mp4''))) = Inr aspectRatio
             \<and> (s3Error env = None \<longrightarrow>
                  s3 w' (s3Bucket cfg, aspectRatio @ ''/'' @ vid @ ''.mp4'')
                    = Some (bytes, ''video/mp4''))"
      using l a by (intro exI [of _ "bytes_file upload"] conjI)
    show ?thesis
      using m ab b c d by - (rule bexI [of _ aspectRatio], intro conjI, assumption+)
  qed
qed

theorem storage_key_prefixed_witness:
  "\<exists>resp w'. handlerUploadVideo sample_env sample_cfg sample_upload sample_world = (Inr resp, w')
     \<and> mediaTypeToExt sample_env ''video/mp4'' = ''.mp4''
     \<and> videoId sample_upload = Some ''v1''
     \<and> (\<exists>label \<in> {''landscape'', ''portrait'', ''other''}.
           (\<exists>bytes. getVideoAspectRatio (toNumber sample_env)
              (ffprobe sample_env
                 ((disk sample_world)(getAssetDiskPath sample_env sample_cfg (''v1'' @ ''.mp4'')
                    \<mapsto> bytes))
                 (getAssetDiskPath sample_env sample_cfg (''v1'' @ ''.mp4''))) = Inr label
             \<and> (s3Error sample_env = None \<longrightarrow>
                  s3 w' (s3Bucket sample_cfg, label @ ''/'' @ ''v1'' @ ''.mp4'')
                    = Some (bytes, ''video/mp4'')))
         \<and> (\<forall>k. k \<noteq> (s3Bucket sample_cfg, label @ ''/'' @ ''v1'' @ ''.mp4'')
                \<longrightarrow> s3 w' k = s3 sample_world k)
         \<and> videoURL (body resp)
             = Some (getS3AssetURL sample_env sample_cfg (label @ ''/'' @ ''v1'' @ ''.mp4''))
         \<and> (\<exists>r. db w' (id_video (body resp)) = Some r
                \<and> videoURL r
                    = Some (getS3AssetURL sample_env sample_cfg (label @ ''/'' @ ''v1'' @ ''.mp4''))))"
proof -
  obtain resp w' where
    s: "handlerUploadVideo sample_env sample_cfg sample_upload sample_world = (Inr resp, w')"
    by (simp add: sample_defs eval_defs)
  have e: "mediaTypeToExt sample_env ''video/mp4'' = ''.mp4''"
    and v: "videoId sample_upload = Some ''v1''"
    by (simp_all add: sample_defs)
  show ?thesis
    using s e v storage_key_prefixed [OF s e v]
    by - (rule exI [of _ resp], rule exI [of _ w'], intro conjI, assumption+)
qed

text \<open>
  C9. On every input on which the classifying variant of the video handler
  succeeds, the variant without the classifier succeeds too, with the same
  status and the same record in the response and in the database, except that
  the video URL is that of the key \<^verbatim>\<open>{videoId}.mp4\<close> without the label, and
  with the same disk; of the object store it changes no key but
  \<^verbatim>\<open>{videoId}.mp4\<close>, where the object is when the upload does not fail. What
  the second variant does depends neither on the probe nor on the conversion
  the classifier uses: it never runs the classifier.
\<close>

theorem unprefixed_variant_agrees:
  assumes "handlerUploadVideo env cfg req w = (Inr resp, w')"
    and "mediaTypeToExt env ''video/mp4'' = ''.mp4''"
    and "videoId req = Some vid"
  shows "\<exists>resp2 w2.
           handlerUploadVideo_unprefixed env cfg req w = (Inr resp2, w2)
         \<and> status resp2 = status resp
         \<and> body resp2 = (body resp)\<lparr>videoURL := Some (getS3AssetURL env cfg (vid @ ''.mp4''))\<rparr>
         \<and> db w2 = (db w')(id_video (body resp) \<mapsto> body resp2)
         \<and> disk w2 = disk w'
         \<and> (\<forall>k. k \<noteq> (s3Bucket cfg, vid @ ''.mp4'') \<longrightarrow> s3 w2 k = s3 w k)
         \<and> (s3Error env = None \<longrightarrow>
               (\<exists>bytes. s3 w2 (s3Bucket cfg, vid @ ''.mp4'') = Some (bytes, ''video/mp4'')))
         \<and> (\<forall>probe conv. handlerUploadVideo_unprefixed (env\<lparr>ffprobe := probe, toNumber := conv\<rparr>)
               cfg req w = (Inr resp2, w2))"
proof -
  from handlerUploadVideo_success [OF assms(1)] show ?thesis
  proof (elim exE conjE)
    fix vid0 token video form upload aspectRatio
    assume v: "videoId req = Some vid0"
      and h0: "vid0 \<noteq> []" "getBearerToken env (headers req) = Inr token"
        "validateJWT env token (jwtSecret cfg) = Inr (userID video)"
        "getVideo (db w) vid0 = Some video" "formData req = Inr form"
        "map_of form ''video'' = Some (FormFile upload)"
        "int (size_file upload) \<le> MAX_UPLOAD_SIZE_video" "type_file upload = ''video/mp4''"
        "writeError env = None" "deleteError env = None" "updateError env = None"
      and r0: "resp = respondWithJSON 200
         (video\<lparr>videoURL := Some (getS3AssetURL env cfg
            (aspectRatio @ ''/'' @ vid0 @ mediaTypeToExt env ''video/mp4''))\<rparr>)"
      and w0: "w' = \<lparr>db = (db w)(id_video video \<mapsto> video\<lparr>videoURL := Some (getS3AssetURL env cfg
                   (aspectRatio @ ''/'' @ vid0 @ mediaTypeToExt env ''video/mp4''))\<rparr>),
             disk = (disk w)(getAssetDiskPath env cfg (vid0 @ mediaTypeToExt env ''video/mp4'') := None),
             s3 = s3_write (s3Error env) (s3 w)
                    (s3Bucket cfg, aspectRatio @ ''/'' @ vid0 @ mediaTypeToExt env ''video/mp4'')
                    (Some (bytes_file upload)) ''video/mp4''\<rparr>"
    from v assms(3) have vid0: "vid0 = vid" by simp
    note h = h0 [unfolded vid0]
    note r = r0 [unfolded vid0 assms(2)]
    note w' = w0 [unfolded vid0 assms(2)]
    let ?video2 = "video\<lparr>videoURL := Some (getS3AssetURL env cfg (vid @ ''.mp4''))\<rparr>"
    let ?w2 = "\<lparr>db = (db w)(id_video video \<mapsto> ?video2),
             disk = (disk w)(getAssetDiskPath env cfg (vid @ ''.mp4'') := None),
             s3 = s3_write (s3Error env) (s3 w) (s3Bucket cfg, vid @ ''.mp4'')
                    (Some (bytes_file upload)) ''video/mp4''\<rparr>"
    have run: "handlerUploadVideo_unprefixed (env\<lparr>ffprobe := probe, toNumber := conv\<rparr>) cfg req w
        = (Inr (respondWithJSON 200 ?video2), ?w2)" for probe conv
      using h assms(2,3)
      by (simp add: handlerUploadVideo_unprefixed_def Let_def Bun_write_def Bun_delete_def
          updateVideo_def)
    have run0: "handlerUploadVideo_unprefixed env cfg req w
        = (Inr (respondWithJSON 200 ?video2), ?w2)"
      using run [where probe = "ffprobe env" and conv = "toNumber env"] by simp
    have a: "status (respondWithJSON 200 ?video2) = status resp"
      and b: "body (respondWithJSON 200 ?video2)
          = (body resp)\<lparr>videoURL := Some (getS3AssetURL env cfg (vid @ ''.mp4''))\<rparr>"
      and c: "db ?w2 = (db w')(id_video (body resp) \<mapsto> body (respondWithJSON 200 ?video2))"
      and d: "disk ?w2 = disk w'"
      and e: "\<forall>k. k \<noteq> (s3Bucket cfg, vid @ ''.mp4'') \<longrightarrow> s3 ?w2 k = s3 w k"
      and f: "s3Error env = None \<longrightarrow>
                 (\<exists>bytes. s3 ?w2 (s3Bucket cfg, vid @ ''.mp4'') = Some (bytes, ''video/mp4''))"
      by (simp_all add: r w' respondWithJSON_def s3_write_def split: option.splits)
    have g: "\<forall>probe conv.
        handlerUploadVideo_unprefixed (env\<lparr>ffprobe := probe, toNumber := conv\<rparr>) cfg req w
          = (Inr (respondWithJSON 200 ?video2), ?w2)"
      using run by simp
    show ?thesis
      using run0 a b c d e f g
      by - (rule exI [of _ "respondWithJSON 200 ?video2"], rule exI [of _ ?w2], intro conjI,
          assumption+)
  qed
qed

theorem unprefixed_variant_agrees_witness:
  "\<exists>resp w'. handlerUploadVideo sample_env sample_cfg sample_upload sample_world = (Inr resp, w')
     \<and> mediaTypeToExt sample_env ''video/mp4'' = ''.mp4''
     \<and> videoId sample_upload = Some ''v1''
     \<and> (\<exists>resp2 w2.
           handlerUploadVideo_unprefixed sample_env sample_cfg sample_upload sample_world
             = (Inr resp2, w2)
         \<and> status resp2 = status resp
         \<and> body resp2 = (body resp)\<lparr>videoURL :=
               Some (getS3AssetURL sample_env sample_cfg (''v1'' @ ''.mp4''))\<rparr>
         \<and> db w2 = (db w')(id_video (body resp) \<mapsto> body resp2)
         \<and> disk w2 = disk w'
         \<and> (\<forall>k. k \<noteq> (s3Bucket sample_cfg, ''v1'' @ ''.mp4'') \<longrightarrow> s3 w2 k = s3 sample_world k)
         \<and> (s3Error sample_env = None \<longrightarrow>
               (\<exists>bytes. s3 w2 (s3Bucket sample_cfg, ''v1'' @ ''.mp4'') = Some (bytes, ''video/mp4'')))
         \<and> (\<forall>probe conv. handlerUploadVideo_unprefixed
               (sample_env\<lparr>ffprobe := probe, toNumber := conv\<rparr>)
               sample_cfg sample_upload sample_world = (Inr resp2, w2)))"
proof -
  obtain resp w' where
    s: "handlerUploadVideo sample_env sample_cfg sample_upload sample_world = (Inr resp, w')"
    by (simp add: sample_defs eval_defs)
  have e: "mediaTypeToExt sample_env ''video/mp4'' = ''.mp4''"
    and v: "videoId sample_upload = Some ''v1''"
    by (simp_all add: sample_defs)
  show ?thesis
    using s e v unprefixed_variant_agrees [OF s e v]
    by - (rule exI [of _ resp], rule exI [of _ w'], intro conjI, assumption+)
qed

section \<open>The handlers: what they change of the record\<close>

text \<open>
  C10. On every successful invocation, the record a handler passes to the
  update call, which stores it under its identifier, and returns in the
  response is the record the get call returned with one field assigned: in
  the thumbnail handler the thumbnail URL, set to \<^verbatim>\<open>getAssetURL\<close> of the file
  name; in the video handler the video URL, set to \<^verbatim>\<open>getS3AssetURL\<close> of the
  storage key (with the label of the classifier in the first variant, without
  it in the second). The identifier, the owner, the other URL and the fields
  of the database layer are those of the record that was fetched.
\<close>

theorem handlers_change_one_field:
  assumes "videoId req = Some vid"
    and "getVideo (db w) vid = Some video"
    and "formData req = Inr form"
  shows "(\<forall>upload.
            map_of form ''thumbnail'' = Some (FormFile upload) \<and>
            handlerUploadThumbnail env cfg req w = (Inr resp, w') \<longrightarrow>
            body resp = video\<lparr>thumbnailURL :=
              Some (getAssetURL env cfg (vid @ mediaTypeToExt env (type_file upload)))\<rparr>
          \<and> db w' = (db w)(id_video video \<mapsto> body resp)
          \<and> id_video (body resp) = id_video video
          \<and> userID (body resp) = userID video
          \<and> videoURL (body resp) = videoURL video
          \<and> video.more (body resp) = video.more video)
       \<and> (\<forall>upload.
            map_of form ''video'' = Some (FormFile upload) \<and>
            handlerUploadVideo env cfg req w = (Inr resp, w') \<longrightarrow>
            (\<exists>label. getVideoAspectRatio (toNumber env)
                (ffprobe env
                   ((disk w)(getAssetDiskPath env cfg (vid @ mediaTypeToExt env ''video/mp4'')
                      \<mapsto> bytes_file upload))
                   (getAssetDiskPath env cfg (vid @ mediaTypeToExt env ''video/mp4''))) = Inr label
              \<and> body resp = video\<lparr>videoURL :=
                    Some (getS3AssetURL env cfg
                      (label @ ''/'' @ vid @ mediaTypeToExt env ''video/mp4''))\<rparr>)
          \<and> db w' = (db w)(id_video video \<mapsto> body resp)
          \<and> id_video (body resp) = id_video video
          \<and> userID (body resp) = userID video
          \<and> thumbnailURL (body resp) = thumbnailURL video
          \<and> video.more (body resp) = video.more video)
       \<and> (handlerUploadVideo_unprefixed env cfg req w = (Inr resp, w') \<longrightarrow>
            body resp = video\<lparr>videoURL :=
              Some (getS3AssetURL env cfg (vid @ mediaTypeToExt env ''video/mp4''))\<rparr>
          \<and> db w' = (db w)(id_video video \<mapsto> body resp)
          \<and> id_video (body resp) = id_video video
          \<and> userID (body resp) = userID video
          \<and> thumbnailURL (body resp) = thumbnailURL video
          \<and> video.more (body resp) = video.more video)"
proof (intro conjI allI impI)
  fix upload
  assume a: "map_of form ''thumbnail'' = Some (FormFile upload) \<and>
            handlerUploadThumbnail env cfg req w = (Inr resp, w')"
  then have run: "handlerUploadThumbnail env cfg req w = (Inr resp, w')" ..
  from handlerUploadThumbnail_success [OF run] assms a
  have r: "body resp = video\<lparr>thumbnailURL :=
              Some (getAssetURL env cfg (vid @ mediaTypeToExt env (type_file upload)))\<rparr>"
    and d: "db w' = (db w)(id_video video \<mapsto> body resp)"
    by (auto simp: respondWithJSON_def)
  show "body resp = video\<lparr>thumbnailURL :=
              Some (getAssetURL env cfg (vid @ mediaTypeToExt env (type_file upload)))\<rparr>"
    by (rule r)
  show "db w' = (db w)(id_video video \<mapsto> body resp)" by (rule d)
  show "id_video (body resp) = id_video video" by (simp add: r)
  show "userID (body resp) = userID video" by (simp add: r)
  show "videoURL (body resp) = videoURL video" by (simp add: r)
  show "video.more (body resp) = video.more video" by (simp add: r)
next
  fix upload
  assume a: "map_of form ''video'' = Some (FormFile upload) \<and>
            handlerUploadVideo env cfg req w = (Inr resp, w')"
  then have run: "handlerUploadVideo env cfg req w = (Inr resp, w')" ..
  from handlerUploadVideo_success [OF run] assms a
  have r: "\<exists>label. getVideoAspectRatio (toNumber env)
                (ffprobe env
                   ((disk w)(getAssetDiskPath env cfg (vid @ mediaTypeToExt env ''video/mp4'')
                      \<mapsto> bytes_file upload))
                   (getAssetDiskPath env cfg (vid @ mediaTypeToExt env ''video/mp4''))) = Inr label
              \<and> body resp = video\<lparr>videoURL :=
                    Some (getS3AssetURL env cfg
                      (label @ ''/'' @ vid @ mediaTypeToExt env ''video/mp4''))\<rparr>"
    and d: "db w' = (db w)(id_video video \<mapsto> body resp)"
    by (auto simp: respondWithJSON_def)
  show "\<exists>label. getVideoAspectRatio (toNumber env)
                (ffprobe env
                   ((disk w)(getAssetDiskPath env cfg (vid @ mediaTypeToExt env ''video/mp4'')
                      \<mapsto> bytes_file upload))
                   (getAssetDiskPath env cfg (vid @ mediaTypeToExt env ''video/mp4''))) = Inr label
              \<and> body resp = video\<lparr>videoURL :=
                    Some (getS3AssetURL env cfg
                      (label @ ''/'' @ vid @ mediaTypeToExt env ''video/mp4''))\<rparr>"
    by (rule r)
  show "db w' = (db w)(id_video video \<mapsto> body resp)" by (rule d)
  from r show "id_video (body resp) = id_video video" by auto
  from r show "userID (body resp) = userID video" by auto
  from r show "thumbnailURL (body resp) = thumbnailURL video" by auto
  from r show "video.more (body resp) = video.more video" by auto
next
  assume run: "handlerUploadVideo_unprefixed env cfg req w = (Inr resp, w')"
  from handlerUploadVideo_unprefixed_success [OF run] assms
  have r: "body resp = video\<lparr>videoURL :=
              Some (getS3AssetURL env cfg (vid @ mediaTypeToExt env ''video/mp4''))\<rparr>"
    and d: "db w' = (db w)(id_video video \<mapsto> body resp)"
    by (auto simp: respondWithJSON_def)
  show "body resp = video\<lparr>videoURL :=
              Some (getS3AssetURL env cfg (vid @ mediaTypeToExt env ''video/mp4''))\<rparr>"
    by (rule r)
  show "db w' = (db w)(id_video video \<mapsto> body resp)" by (rule d)
  show "id_video (body resp) = id_video video" by (simp add: r)
  show "userID (body resp) = userID video" by (simp add: r)
  show "thumbnailURL (body resp) = thumbnailURL video" by (simp add: r)
  show "video.more (body resp) = video.more video" by (simp add: r)
qed

theorem handlers_change_one_field_witness:
  "videoId sample_thumbnail = Some ''v1''
   \<and> videoId sample_upload = Some ''v1''
   \<and> getVideo (db sample_world) ''v1'' = Some sample_video
   \<and> formData sample_thumbnail = Inr [(''thumbnail'', FormFile (sample_file ''image/png'' ''png''))]
   \<and> map_of [(''thumbnail'', FormFile (sample_file ''image/png'' ''png''))] ''thumbnail''
        = Some (FormFile (sample_file ''image/png'' ''png''))
   \<and> formData sample_upload
        = Inr [(''video'', FormFile (sample_file ''video/mp4'' ''mp4 1280x720''))]
   \<and> map_of [(''video'', FormFile (sample_file ''video/mp4'' ''mp4 1280x720''))] ''video''
        = Some (FormFile (sample_file ''video/mp4'' ''mp4 1280x720''))
   \<and> (\<exists>resp w'.
         handlerUploadThumbnail sample_env sample_cfg sample_thumbnail sample_world = (Inr resp, w')
       \<and> body resp = sample_video\<lparr>thumbnailURL :=
             Some (getAssetURL sample_env sample_cfg
               (''v1'' @ mediaTypeToExt sample_env (type_file (sample_file ''image/png'' ''png''))))\<rparr>
       \<and> db w' = (db sample_world)(id_video sample_video \<mapsto> body resp)
       \<and> id_video (body resp) = id_video sample_video
       \<and> userID (body resp) = userID sample_video
       \<and> videoURL (body resp) = videoURL sample_video
       \<and> video.more (body resp) = video.more sample_video)
   \<and> (\<exists>resp w'.
         handlerUploadVideo sample_env sample_cfg sample_upload sample_world = (Inr resp, w')
       \<and> (\<exists>label. getVideoAspectRatio (toNumber sample_env)
              (ffprobe sample_env
                 ((disk sample_world)(getAssetDiskPath sample_env sample_cfg
                     (''v1'' @ mediaTypeToExt sample_env ''video/mp4'')
                    \<mapsto> bytes_file (sample_file ''video/mp4'' ''mp4 1280x720'')))
                 (getAssetDiskPath sample_env sample_cfg
                     (''v1'' @ mediaTypeToExt sample_env ''video/mp4''))) = Inr label
            \<and> body resp = sample_video\<lparr>videoURL :=
                  Some (getS3AssetURL sample_env sample_cfg
                    (label @ ''/'' @ ''v1'' @ mediaTypeToExt sample_env ''video/mp4''))\<rparr>)
       \<and> db w' = (db sample_world)(id_video sample_video \<mapsto> body resp)
       \<and> id_video (body resp) = id_video sample_video
       \<and> userID (body resp) = userID sample_video
       \<and> thumbnailURL (body resp) = thumbnailURL sample_video
       \<and> video.more (body resp) = video.more sample_video)
   \<and> (\<exists>resp w'.
         handlerUploadVideo_unprefixed sample_env sample_cfg sample_upload sample_world
           = (Inr resp, w')
       \<and> body resp = sample_video\<lparr>videoURL :=
             Some (getS3AssetURL sample_env sample_cfg
               (''v1'' @ mediaTypeToExt sample_env ''video/mp4''))\<rparr>
       \<and> db w' = (db sample_world)(id_video sample_video \<mapsto> body resp)
       \<and> id_video (body resp) = id_video sample_video
       \<and> userID (body resp) = userID sample_video
       \<and> thumbnailURL (body resp) = thumbnailURL sample_video
       \<and> video.more (body resp) = video.more sample_video)"
proof -
  let ?png = "sample_file ''image/png'' ''png''"
  let ?mp4 = "sample_file ''video/mp4'' ''mp4 1280x720''"
  have t: "videoId sample_thumbnail = Some ''v1''"
    and u: "videoId sample_upload = Some ''v1''"
    and g: "getVideo (db sample_world) ''v1'' = Some sample_video"
    and ft: "formData sample_thumbnail = Inr [(''thumbnail'', FormFile ?png)]"
    and mt: "map_of [(''thumbnail'', FormFile ?png)] ''thumbnail'' = Some (FormFile ?png)"
    and fu: "formData sample_upload = Inr [(''video'', FormFile ?mp4)]"
    and mu: "map_of [(''video'', FormFile ?mp4)] ''video'' = Some (FormFile ?mp4)"
    by (simp_all add: sample_defs getVideo_def)
  obtain resp1 w1 where
    s1: "handlerUploadThumbnail sample_env sample_cfg sample_thumbnail sample_world = (Inr resp1, w1)"
    by (simp add: sample_defs eval_defs)
  obtain resp2 w2 where
    s2: "handlerUploadVideo sample_env sample_cfg sample_upload sample_world = (Inr resp2, w2)"
    by (simp add: sample_defs eval_defs)
  obtain resp3 w3 where
    s3: "handlerUploadVideo_unprefixed sample_env sample_cfg sample_upload sample_world
      = (Inr resp3, w3)"
    by (simp add: sample_defs eval_defs)
  note c1 = handlers_change_one_field [OF t g ft, where env = sample_env and cfg = sample_cfg
      and resp = resp1 and w' = w1, THEN conjunct1, THEN spec, THEN mp, OF conjI, OF mt s1]
  note c2 = handlers_change_one_field [OF u g fu, where env = sample_env and cfg = sample_cfg
      and resp = resp2 and w' = w2, THEN conjunct2, THEN conjunct1, THEN spec, THEN mp,
      OF conjI, OF mu s2]
  note c3 = handlers_change_one_field [OF u g fu, where env = sample_env and cfg = sample_cfg
      and resp = resp3 and w' = w3, THEN conjunct2, THEN conjunct2, THEN mp, OF s3]
  have e1: "\<exists>resp w'.
         handlerUploadThumbnail sample_env sample_cfg sample_thumbnail sample_world = (Inr resp, w')
       \<and> body resp = sample_video\<lparr>thumbnailURL :=
             Some (getAssetURL sample_env sample_cfg
               (''v1'' @ mediaTypeToExt sample_env (type_file ?png)))\<rparr>
       \<and> db w' = (db sample_world)(id_video sample_video \<mapsto> body resp)
       \<and> id_video (body resp) = id_video sample_video
       \<and> userID (body resp) = userID sample_video
       \<and> videoURL (body resp) = videoURL sample_video
       \<and> video.more (body resp) = video.more sample_video"
    using s1 c1 by - (rule exI [of _ resp1], rule exI [of _ w1], rule conjI, assumption+)
  have e2: "\<exists>resp w'.
         handlerUploadVideo sample_env sample_cfg sample_upload sample_world = (Inr resp, w')
       \<and> (\<exists>label. getVideoAspectRatio (toNumber sample_env)
              (ffprobe sample_env
                 ((disk sample_world)(getAssetDiskPath sample_env sample_cfg
                     (''v1'' @ mediaTypeToExt sample_env ''video/mp4'')
                    \<mapsto> bytes_file ?mp4))
                 (getAssetDiskPath sample_env sample_cfg
                     (''v1'' @ mediaTypeToExt sample_env ''video/mp4''))) = Inr label
            \<and> body resp = sample_video\<lparr>videoURL :=
                  Some (getS3AssetURL sample_env sample_cfg
                    (label @ ''/'' @ ''v1'' @ mediaTypeToExt sample_env ''video/mp4''))\<rparr>)
       \<and> db w' = (db sample_world)(id_video sample_video \<mapsto> body resp)
       \<and> id_video (body resp) = id_video sample_video
       \<and> userID (body resp) = userID sample_video
       \<and> thumbnailURL (body resp) = thumbnailURL sample_video
       \<and> video.more (body resp) = video.more sample_video"
    using s2 c2 by - (rule exI [of _ resp2], rule exI [of _ w2], rule conjI, assumption+)
  have e3: "\<exists>resp w'.
         handlerUploadVideo_unprefixed sample_env sample_cfg sample_upload sample_world
           = (Inr resp, w')
       \<and> body resp = sample_video\<lparr>videoURL :=
             Some (getS3AssetURL sample_env sample_cfg
               (''v1'' @ mediaTypeToExt sample_env ''video/mp4''))\<rparr>
       \<and> db w' = (db sample_world)(id_video sample_video \<mapsto> body resp)
       \<and> id_video (body resp) = id_video sample_video
       \<and> userID (body resp) = userID sample_video
       \<and> thumbnailURL (body resp) = thumbnailURL sample_video
       \<and> video.more (body resp) = video.more sample_video"
    using s3 c3 by - (rule exI [of _ resp3], rule exI [of _ w3], rule conjI, assumption+)
  from t u g ft mt fu mu e1 e2 e3 show ?thesis
    by (intro conjI)
qed

end
